theory Spec2Isabelle
  imports Complex_Main
begin

section \<open>The authentication session manager of \<open>useKeycloak.jsx\<close>\<close>

text \<open>
  A shallow embedding of \<open>src/frontend/src/hooks/useKeycloak.jsx\<close>. The module keeps four
  global variables and a set of subscriber callbacks; every call of the hook \<open>useKeycloak\<close>
  (a \<^emph>\<open>facade\<close>) keeps React state and two refs of its own. JavaScript runs the module on
  one thread: a function runs without interruption up to its next \<open>await\<close>, and resumes in a
  later turn when the awaited promise settles. The model follows that: each asynchronous
  function is split at its \<open>await\<close>s into total functions on an explicit world state, the
  outcome of the awaited call of the identity provider being an argument of the part that
  resumes.

  The identity provider (the \<open>keycloak-js\<close> client) is outside the module. Its client objects
  live in a store, since the module and every facade hold references to one shared object;
  what a provider call does to the object is part of the call's outcome.

  Modelled: the role functions, \<open>isCustomRole\<close>, \<open>loadRoleAttributes\<close>, \<open>loadUserInfo\<close>,
  \<open>hasModulePermission\<close>, \<open>getToken\<close>, \<open>handleStateChange\<close>, \<open>notifyStateChange\<close>,
  \<open>resetGlobalState\<close>, \<open>setupTokenRefresh\<close> with its \<open>updateToken\<close> closure, \<open>initKeycloak\<close>,
  \<open>logout\<close>, and the four hooks that \<open>initKeycloak\<close> sets on the client object. Left out, as
  nothing below depends on them: \<open>updateProfile\<close>, the manual \<open>updateToken\<close>, \<open>isTokenExpired\<close>,
  the mount and unmount effects, and \<open>debugLog\<close>.

  A string is the list of its UTF-8 bytes: equality, concatenation and prefixes of strings
  are those of the byte lists.
\<close>

subsection \<open>Values and the provider's client object\<close>

text \<open>
  The values a \<open>role_attributes\<close> entry of the parsed token can hold. Numbers are rationals
  (every finite double is one); the code only compares a number with \<open>1\<close>.
\<close>

datatype jsval = JUndefined | JNull | JBool bool | JNum rat | JStr string

text \<open>
  A thrown or rejected value: \<open>null\<close>, \<open>undefined\<close>, or any other value, given by its \<open>message\<close>
  property (absent on a value that is not an \<open>Error\<close>) and its string conversion.
\<close>

datatype js_error = ThrownNull | ThrownUndefined | Thrown "string option" string

definition isNullish :: "js_error \<Rightarrow> bool" where
  "isNullish err =
     (case err of ThrownNull \<Rightarrow> True | ThrownUndefined \<Rightarrow> True | Thrown m str \<Rightarrow> False)"

text \<open>\<open>err?.message\<close>: undefined on \<open>null\<close> and \<open>undefined\<close>. The plain \<open>err.message\<close> throws a
  \<open>TypeError\<close> there; the functions that read it test \<open>isNullish\<close> first.\<close>

definition messageProp :: "js_error \<Rightarrow> string option" where
  "messageProp err =
     (case err of ThrownNull \<Rightarrow> None | ThrownUndefined \<Rightarrow> None | Thrown m str \<Rightarrow> m)"

text \<open>The string a template literal makes of the value.\<close>

definition errorString :: "js_error \<Rightarrow> string" where
  "errorString err =
     (case err of ThrownNull \<Rightarrow> ''null'' | ThrownUndefined \<Rightarrow> ''undefined''
      | Thrown m str \<Rightarrow> str)"

text \<open>The \<open>TypeError\<close> thrown by \<open>err.message\<close> on \<open>null\<close> or \<open>undefined\<close>. The wording of its
  message depends on the engine; one wording is fixed here.\<close>

definition typeErrorOnNullish :: js_error where
  "typeErrorOnNullish =
     Thrown (Some ''Cannot read properties of null or undefined'')
       ''TypeError: Cannot read properties of null or undefined''"

text \<open>
  The fields of a Keycloak client object that the module reads. \<open>kc_authenticated\<close> is the
  truthiness of \<open>authenticated\<close>; \<open>realmAccess\<close> is \<open>realmAccess?.roles\<close>; \<open>resourceAccess\<close> maps a
  client id to \<open>resourceAccess?.[id]?.roles\<close>; \<open>tokenParsed_role_attributes\<close> is
  \<open>tokenParsed?.role_attributes\<close> as the list of its own properties in key order. An absent
  part is \<open>None\<close>. Role names are strings. The token is parsed by \<open>JSON.parse\<close>, which makes
  every key of the JSON text an own property, the key \<open>__proto__\<close> included.
\<close>

record kc_instance =
  kc_authenticated :: bool
  kc_token :: "string option"
  kc_refreshToken :: "string option"
  realmAccess :: "string list option"
  resourceAccess :: "string \<rightharpoonup> string list"
  tokenParsed_role_attributes :: "(string \<times> jsval) list option"

text \<open>\<open>ENV.KEYCLOAK.CLIENT\<close> and \<open>ENV.KEYCLOAK.SUPER_ROLE\<close> of \<open>env.config.js\<close>.\<close>

record config =
  clientId :: string
  SUPER_ROLE :: string

record profile =
  profile_id :: "string option"
  profile_username :: "string option"
  profile_email :: "string option"
  profile_firstName :: "string option"
  profile_lastName :: "string option"

record user_info =
  ui_id :: "string option"
  ui_username :: "string option"
  ui_email :: "string option"
  ui_firstName :: "string option"
  ui_lastName :: "string option"
  ui_name :: string
  ui_roles :: "string list"
  ui_realmRoles :: "string list"
  ui_clientRoles :: "string list"
  ui_hasSuperRole :: bool

subsection \<open>A facade: the React state and refs of one \<open>useKeycloak\<close> call\<close>

text \<open>
  \<open>keycloak\<close> is a reference into the store of client objects. \<open>updateTokenTimeoutRef\<close> holds
  the handle of the last timer the facade armed. The state \<open>error\<close> is a string or null in
  every assignment the module makes after mounting.
\<close>

type_synonym ref = nat

record facade =
  keycloak :: "ref option"
  authenticated :: bool
  loading :: bool
  error :: "string option"
  userInfo :: "user_info option"
  token :: "string option"
  refreshToken :: "string option"
  roleAttributes :: "string \<rightharpoonup> (string \<times> jsval) list"
  permissions :: "string \<rightharpoonup> bool"
  updateTokenTimeoutRef :: "nat option"
  isMountedRef :: bool

subsection \<open>Roles\<close>

text \<open>\<open>getClientRoles\<close>, \<open>getUserRoles\<close>, \<open>hasSuperRole\<close> (lines 116-139). The argument is the
  client object, \<open>None\<close> when the reference is null.\<close>

definition getClientRoles :: "config \<Rightarrow> kc_instance option \<Rightarrow> string list" where
  "getClientRoles cfg keycloakInstance =
     (case keycloakInstance of
        None \<Rightarrow> []
      | Some k \<Rightarrow>
          if \<not> kc_authenticated k then []
          else (case resourceAccess k (clientId cfg) of None \<Rightarrow> [] | Some rs \<Rightarrow> rs))"

definition getUserRoles :: "config \<Rightarrow> kc_instance option \<Rightarrow> string list" where
  "getUserRoles cfg keycloakInstance =
     (case keycloakInstance of
        None \<Rightarrow> []
      | Some k \<Rightarrow>
          if \<not> kc_authenticated k then []
          else (case realmAccess k of None \<Rightarrow> [] | Some rs \<Rightarrow> rs)
               @ getClientRoles cfg keycloakInstance)"

definition hasSuperRole :: "config \<Rightarrow> kc_instance option \<Rightarrow> bool" where
  "hasSuperRole cfg keycloakInstance =
     (case keycloakInstance of
        None \<Rightarrow> False
      | Some k \<Rightarrow>
          if \<not> kc_authenticated k then False
          else SUPER_ROLE cfg \<in> set (getUserRoles cfg keycloakInstance))"

text \<open>\<open>isCustomRole\<close> (lines 142-150).\<close>

definition startsWith :: "string \<Rightarrow> string \<Rightarrow> bool" where
  "startsWith s p = (take (length p) s = p)"

definition defaultRoles :: "string list" where
  "defaultRoles = [''two-shoulder'', ''offline_access'', ''uma_authorization'']"

definition isCustomRole :: "string \<Rightarrow> bool" where
  "isCustomRole roleName =
     (if startsWith roleName ''default-roles-'' then False
      else if roleName = ''two-shoulder'' then True
      else if roleName \<in> set defaultRoles then False
      else True)"

subsection \<open>The permission resolver: \<open>loadRoleAttributes\<close> (lines 153-227)\<close>

text \<open>The test of line 195 on a claim value.\<close>

definition truthyClaim :: "jsval \<Rightarrow> bool" where
  "truthyClaim v = (v = JBool True \<or> v = JStr ''true'' \<or> v = JStr ''1'' \<or> v = JNum 1)"

text \<open>Reading a property of an object: \<open>undefined\<close> when the object has no such key.\<close>

definition getProp :: "(string \<times> jsval) list \<Rightarrow> string \<Rightarrow> jsval" where
  "getProp obj key = (case map_of obj key of None \<Rightarrow> JUndefined | Some v \<Rightarrow> v)"

text \<open>
  An assignment \<open>obj[key] = b\<close> of a boolean to a plain object (one created by \<open>{}\<close>): it
  creates or overwrites the own property \<open>key\<close>, except for the key \<open>__proto__\<close>, where it runs
  the setter inherited from \<open>Object.prototype\<close>, which ignores a value that is neither an
  object nor \<open>null\<close>: the object gets no property.
\<close>

definition assignBool :: "(string \<rightharpoonup> bool) \<Rightarrow> string \<Rightarrow> bool \<Rightarrow> (string \<rightharpoonup> bool)" where
  "assignBool obj key b = (if key = ''__proto__'' then obj else obj(key \<mapsto> b))"

text \<open>
  The permission merge (lines 174-202). \<open>Object.keys(o).forEach\<close> and \<open>filteredRoles.forEach\<close>
  are folds over the key list and the role list, and the object \<open>mergedPermissions\<close> is the
  map of its own properties. The keys of \<open>roleAttributesMap\<close> start with \<open>realm:\<close>, so the
  assignments of line 207 are plain map updates.
\<close>

definition roleAttributesFromToken :: "kc_instance \<Rightarrow> (string \<times> jsval) list" where
  "roleAttributesFromToken k =
     (case tokenParsed_role_attributes k of None \<Rightarrow> [] | Some ra \<Rightarrow> ra)"

definition allPermissionsTrue :: "(string \<times> jsval) list \<Rightarrow> (string \<rightharpoonup> bool)" where
  "allPermissionsTrue attrs =
     fold (\<lambda>module merged. assignBool merged module True) (map fst attrs) Map.empty"

definition customRolePermissions ::
  "string list \<Rightarrow> (string \<times> jsval) list \<Rightarrow> (string \<rightharpoonup> bool)" where
  "customRolePermissions filteredRoles attrs =
     fold (\<lambda>role merged.
             fold (\<lambda>module merged'.
                     if truthyClaim (getProp attrs module)
                     then assignBool merged' module True
                     else assignBool merged' module False)
                  (map fst attrs) merged)
          filteredRoles Map.empty"

definition mergedPermissions :: "config \<Rightarrow> kc_instance \<Rightarrow> (string \<rightharpoonup> bool)" where
  "mergedPermissions cfg k =
     (let userRoles = getUserRoles cfg (Some k);
          filteredRoles = filter isCustomRole userRoles;
          hasSuper = hasSuperRole cfg (Some k);
          hasTwoShoulder = (''two-shoulder'' \<in> set userRoles)
      in if hasSuper then allPermissionsTrue (roleAttributesFromToken k)
         else if hasTwoShoulder then allPermissionsTrue (roleAttributesFromToken k)
         else customRolePermissions filteredRoles (roleAttributesFromToken k))"

definition roleAttributesMap ::
  "config \<Rightarrow> kc_instance \<Rightarrow> (string \<rightharpoonup> (string \<times> jsval) list)" where
  "roleAttributesMap cfg k =
     (let filteredRoles = filter isCustomRole (getUserRoles cfg (Some k))
      in fold (\<lambda>role m. m(''realm:'' @ role \<mapsto> roleAttributesFromToken k)) filteredRoles Map.empty)"

text \<open>
  \<open>loadRoleAttributes\<close> on a facade: the new React state of the facade and the returned map.
  Nothing in the \<open>try\<close> block throws on the typed values above, so the \<open>catch\<close> block has no
  branch here.
\<close>

definition loadRoleAttributes ::
  "config \<Rightarrow> kc_instance option \<Rightarrow> facade \<Rightarrow> facade \<times> (string \<rightharpoonup> (string \<times> jsval) list)" where
  "loadRoleAttributes cfg keycloakInstance fa =
     (case keycloakInstance of
        None \<Rightarrow> (fa, Map.empty)
      | Some k \<Rightarrow>
          if \<not> kc_authenticated k \<or> \<not> isMountedRef fa then (fa, Map.empty)
          else (fa\<lparr>roleAttributes := roleAttributesMap cfg k,
                   permissions := mergedPermissions cfg k\<rparr>,
                roleAttributesMap cfg k))"

subsection \<open>\<open>hasModulePermission\<close> (lines 432-445) and \<open>getToken\<close> (lines 561-563)\<close>

text \<open>The default argument of \<open>hasSuperRole()\<close> is the facade's \<open>keycloak\<close> state, read through
  the store \<open>h\<close> of client objects.\<close>

definition deref :: "(ref \<Rightarrow> kc_instance) \<Rightarrow> ref option \<Rightarrow> kc_instance option" where
  "deref h r = map_option h r"

definition hasModulePermission ::
  "config \<Rightarrow> (ref \<Rightarrow> kc_instance) \<Rightarrow> facade \<Rightarrow> string \<Rightarrow> bool" where
  "hasModulePermission cfg h fa moduleName =
     (if \<not> authenticated fa \<or> moduleName = [] then False
      else if hasSuperRole cfg (deref h (keycloak fa)) then True
      else permissions fa moduleName = Some True)"

definition getToken :: "(ref \<Rightarrow> kc_instance) \<Rightarrow> facade \<Rightarrow> string option" where
  "getToken h fa =
     (case keycloak fa of
        None \<Rightarrow> None
      | Some r \<Rightarrow> (case kc_token (h r) of
                     None \<Rightarrow> None
                   | Some t \<Rightarrow> if t = [] then None else Some t))"

subsection \<open>The module's state\<close>

datatype phase = Idle | Initializing | Initialized | Failed

text \<open>
  The objects passed to \<open>notifyStateChange\<close>, by their \<open>type\<close>. \<open>RESET\<close> and \<open>LOADING\<close> carry
  constant fields that no subscriber reads; \<open>INITIALIZED\<close> carries the client object and
  \<open>authenticated\<close>, \<open>ERROR\<close> the message, \<open>TOKEN_UPDATED\<close> the two tokens. \<open>UNKNOWN\<close> stands for
  an object of any other \<open>type\<close>.
\<close>

datatype event =
    RESET
  | LOADING
  | INITIALIZED ref bool
  | ERROR string
  | TOKEN_UPDATED "string option" "string option"
  | UNKNOWN string

text \<open>The calls the module makes to the provider's client object, in the order made.\<close>

datatype provider_call =
    PInit ref
  | PUpdateToken ref nat
  | PLogout ref
  | PLoadUserProfile ref

text \<open>A pending timeout: its handle, the facade whose \<open>updateToken\<close> closure it runs, the
  client object the closure holds, and the delay in milliseconds.\<close>

record timer =
  t_handle :: nat
  t_owner :: nat
  t_instance :: ref
  t_delay :: nat

text \<open>
  The four module variables, the subscriber set (the facades whose \<open>handleStateChange\<close> is in
  the set, in insertion order), the facades, the store of client objects, the pending
  timeouts, and three logs: the provider calls made, the events passed to
  \<open>notifyStateChange\<close>, and the \<open>console.error\<close> lines with the value they print. A promise is
  named by the client object its body creates: \<open>keycloakInitPromise\<close> is only ever assigned
  the promise of the body that runs \<open>new Keycloak\<close>. \<open>globalError\<close> is \<open>None\<close> when the variable
  holds \<open>null\<close> or \<open>undefined\<close>.
\<close>

record world =
  keycloakSingleton :: "ref option"
  keycloakInitPromise :: "ref option"
  initializationState :: phase
  globalError :: "js_error option"
  stateSubscribers :: "nat list"
  facades :: "nat \<Rightarrow> facade"
  store :: "ref \<Rightarrow> kc_instance"
  nextRef :: ref
  timers :: "timer list"
  nextTimer :: nat
  providerCalls :: "provider_call list"
  notified :: "event list"
  console :: "(string \<times> js_error option) list"

definition updFacade :: "nat \<Rightarrow> (facade \<Rightarrow> facade) \<Rightarrow> world \<Rightarrow> world" where
  "updFacade f g w = w\<lparr>facades := (facades w)(f := g (facades w f))\<rparr>"

subsection \<open>The local reducer \<open>handleStateChange\<close> (lines 75-105)\<close>

text \<open>The \<open>switch\<close> has the cases \<open>RESET\<close>, \<open>INITIALIZED\<close>, \<open>ERROR\<close> and \<open>TOKEN_UPDATED\<close> and no
  \<open>default\<close>: on any other \<open>type\<close> no setter runs.\<close>

definition handleStateChange :: "facade \<Rightarrow> event \<Rightarrow> facade" where
  "handleStateChange fa newState =
     (if \<not> isMountedRef fa then fa
      else case newState of
          RESET \<Rightarrow>
            fa\<lparr>keycloak := None, authenticated := False, loading := False, error := None,
               userInfo := None, token := None, refreshToken := None,
               roleAttributes := Map.empty, permissions := Map.empty\<rparr>
        | INITIALIZED k a \<Rightarrow>
            fa\<lparr>keycloak := Some k, authenticated := a, loading := False, error := None\<rparr>
        | ERROR msg \<Rightarrow> fa\<lparr>error := Some msg, loading := False\<rparr>
        | TOKEN_UPDATED t r \<Rightarrow> fa\<lparr>token := t, refreshToken := r\<rparr>
        | LOADING \<Rightarrow> fa
        | UNKNOWN ty \<Rightarrow> fa)"

subsection \<open>\<open>notifyStateChange\<close> (lines 30-38) and \<open>resetGlobalState\<close> (lines 41-54)\<close>

text \<open>
  A subscriber is a callback: run on an event and a state, it leaves a state and either
  returns (\<open>None\<close>) or throws. \<open>forEachSubscriber\<close> is the \<open>forEach\<close> with its \<open>try\<close>/\<open>catch\<close>:
  a thrown value is printed with \<open>console.error\<close> and the loop goes on. The callbacks cannot
  reach the subscriber set (the only callback the module registers, \<open>handleStateChange\<close>,
  just calls setters), so the loop runs over the set as it was at the call.
\<close>

fun forEachSubscriber ::
  "(nat \<Rightarrow> 'e \<Rightarrow> 's \<Rightarrow> 's \<times> js_error option) \<Rightarrow> nat list \<Rightarrow> 'e \<Rightarrow>
   's \<times> (string \<times> js_error option) list \<Rightarrow> 's \<times> (string \<times> js_error option) list" where
  "forEachSubscriber cb [] newState (st, logged) = (st, logged)"
| "forEachSubscriber cb (subscriber # rest) newState (st, logged) =
     (case cb subscriber newState st of
        (st', None) \<Rightarrow> forEachSubscriber cb rest newState (st', logged)
      | (st', Some err) \<Rightarrow>
          forEachSubscriber cb rest newState
            (st', logged @ [(''Error notifying state subscriber:'', Some err)]))"

definition notifyStateChangeWith ::
  "(nat \<Rightarrow> event \<Rightarrow> (nat \<Rightarrow> facade) \<Rightarrow> (nat \<Rightarrow> facade) \<times> js_error option) \<Rightarrow>
   event \<Rightarrow> world \<Rightarrow> world" where
  "notifyStateChangeWith cb newState w =
     (case forEachSubscriber cb (stateSubscribers w) newState (facades w, console w) of
        (fs, logged) \<Rightarrow> w\<lparr>facades := fs, console := logged, notified := notified w @ [newState]\<rparr>)"

text \<open>The callback a facade registers (line 107): its reducer, which never throws.\<close>

definition handleStateChange_subscriber ::
  "nat \<Rightarrow> event \<Rightarrow> (nat \<Rightarrow> facade) \<Rightarrow> (nat \<Rightarrow> facade) \<times> js_error option" where
  "handleStateChange_subscriber f newState fs = (fs(f := handleStateChange (fs f) newState), None)"

definition notifyStateChange :: "event \<Rightarrow> world \<Rightarrow> world" where
  "notifyStateChange = notifyStateChangeWith handleStateChange_subscriber"

text \<open>The exceptions the callbacks throw during one \<open>forEach\<close>, in order: what the claim about
  \<open>notify\<close> calls the caught exceptions.\<close>

fun thrownErrors ::
  "(nat \<Rightarrow> 'e \<Rightarrow> 's \<Rightarrow> 's \<times> js_error option) \<Rightarrow> nat list \<Rightarrow> 'e \<Rightarrow> 's \<Rightarrow> js_error list" where
  "thrownErrors cb [] newState st = []"
| "thrownErrors cb (subscriber # rest) newState st =
     (case cb subscriber newState st of
        (st', None) \<Rightarrow> thrownErrors cb rest newState st'
      | (st', Some err) \<Rightarrow> err # thrownErrors cb rest newState st')"

definition resetGlobalState :: "world \<Rightarrow> world" where
  "resetGlobalState w =
     notifyStateChange RESET
       (w\<lparr>keycloakSingleton := None, keycloakInitPromise := None,
          initializationState := Idle, globalError := None\<rparr>)"

text \<open>
  The four hooks that \<open>initKeycloak\<close> sets on the client object (lines 355-373) and that the
  provider calls on it: \<open>onTokenExpired\<close> starts a refresh of its own, with
  \<open>keycloakInstance.updateToken(30)\<close> on the object that carries the hook;
  \<open>onAuthRefreshSuccess\<close> only calls \<open>debugLog\<close>; \<open>onAuthRefreshError\<close> prints a line;
  \<open>onAuthLogout\<close> resets the module.
\<close>

datatype hook = OnTokenExpired | OnAuthRefreshSuccess | OnAuthRefreshError | OnAuthLogout

definition onTokenExpired :: "ref \<Rightarrow> world \<Rightarrow> world" where
  "onTokenExpired k w = w\<lparr>providerCalls := providerCalls w @ [PUpdateToken k 30]\<rparr>"

definition onAuthRefreshSuccess :: "world \<Rightarrow> world" where
  "onAuthRefreshSuccess w = w"

definition onAuthRefreshError :: "world \<Rightarrow> world" where
  "onAuthRefreshError w = w\<lparr>console := console w @ [(''Token refresh error'', None)]\<rparr>"

definition onAuthLogout :: "world \<Rightarrow> world" where
  "onAuthLogout w = resetGlobalState w"

text \<open>The provider calls a hook of client object \<open>k\<close>; it calls some hooks, in order.\<close>

definition runHook :: "ref \<Rightarrow> hook \<Rightarrow> world \<Rightarrow> world" where
  "runHook k h w =
     (case h of
        OnTokenExpired \<Rightarrow> onTokenExpired k w
      | OnAuthRefreshSuccess \<Rightarrow> onAuthRefreshSuccess w
      | OnAuthRefreshError \<Rightarrow> onAuthRefreshError w
      | OnAuthLogout \<Rightarrow> onAuthLogout w)"

definition runHooks :: "ref \<Rightarrow> hook list \<Rightarrow> world \<Rightarrow> world" where
  "runHooks k hooks w = fold (runHook k) hooks w"

subsection \<open>Timers\<close>

text \<open>A handle is the positive integer \<open>setTimeout\<close> returned, so a ref that holds one is
  truthy.\<close>

definition clearTimeout :: "nat \<Rightarrow> world \<Rightarrow> world" where
  "clearTimeout h w = w\<lparr>timers := filter (\<lambda>t. t_handle t \<noteq> h) (timers w)\<rparr>"

text \<open>Lines 269-272 and 455-458: clear the facade's pending timeout and null its ref.\<close>

definition clearUpdateTokenTimeout :: "nat \<Rightarrow> world \<Rightarrow> world" where
  "clearUpdateTokenTimeout f w =
     (case updateTokenTimeoutRef (facades w f) of
        None \<Rightarrow> w
      | Some h \<Rightarrow> updFacade f (\<lambda>fa. fa\<lparr>updateTokenTimeoutRef := None\<rparr>) (clearTimeout h w))"

text \<open>Line 304: \<open>updateTokenTimeoutRef.current = setTimeout(updateToken, 5 * 60 * 1000)\<close>.\<close>

definition armUpdateTokenTimeout :: "nat \<Rightarrow> ref \<Rightarrow> world \<Rightarrow> world" where
  "armUpdateTokenTimeout f k w =
     updFacade f (\<lambda>fa. fa\<lparr>updateTokenTimeoutRef := Some (nextTimer w)\<rparr>)
       (w\<lparr>timers := timers w @
                     [\<lparr>t_handle = nextTimer w, t_owner = f, t_instance = k,
                       t_delay = 5 * 60 * 1000\<rparr>],
          nextTimer := Suc (nextTimer w)\<rparr>)"

subsection \<open>\<open>loadUserInfo\<close> (lines 230-263)\<close>

text \<open>
  \<open>String.prototype.trim\<close> removes the white space and line terminators of ECMAScript from
  both ends: U+0009 to U+000D, U+0020, U+00A0, U+1680, U+2000 to U+200A, U+2028, U+2029,
  U+202F, U+205F, U+3000 and U+FEFF, here by their UTF-8 bytes. \<open>leadingWhitespace\<close> and
  \<open>trailingWhitespace\<close> give the number of bytes of the code point to remove, or 0.
\<close>

definition asciiWhitespace :: "string list" where
  "asciiWhitespace =
     [[CHR 0x09], [CHR 0x0A], [CHR 0x0B], [CHR 0x0C], [CHR 0x0D], [CHR 0x20]]"

definition unicodeWhitespace2 :: "string list" where
  "unicodeWhitespace2 = [[CHR 0xC2, CHR 0xA0]]"

definition unicodeWhitespace3 :: "string list" where
  "unicodeWhitespace3 =
     [[CHR 0xE1, CHR 0x9A, CHR 0x80],
      [CHR 0xE2, CHR 0x80, CHR 0x80], [CHR 0xE2, CHR 0x80, CHR 0x81],
      [CHR 0xE2, CHR 0x80, CHR 0x82], [CHR 0xE2, CHR 0x80, CHR 0x83],
      [CHR 0xE2, CHR 0x80, CHR 0x84], [CHR 0xE2, CHR 0x80, CHR 0x85],
      [CHR 0xE2, CHR 0x80, CHR 0x86], [CHR 0xE2, CHR 0x80, CHR 0x87],
      [CHR 0xE2, CHR 0x80, CHR 0x88], [CHR 0xE2, CHR 0x80, CHR 0x89],
      [CHR 0xE2, CHR 0x80, CHR 0x8A],
      [CHR 0xE2, CHR 0x80, CHR 0xA8], [CHR 0xE2, CHR 0x80, CHR 0xA9],
      [CHR 0xE2, CHR 0x80, CHR 0xAF], [CHR 0xE2, CHR 0x81, CHR 0x9F],
      [CHR 0xE3, CHR 0x80, CHR 0x80], [CHR 0xEF, CHR 0xBB, CHR 0xBF]]"

definition leadingWhitespace :: "string \<Rightarrow> nat" where
  "leadingWhitespace s =
     (if take 1 s \<in> set asciiWhitespace then 1
      else if take 2 s \<in> set unicodeWhitespace2 then 2
      else if take 3 s \<in> set unicodeWhitespace3 then 3
      else 0)"

definition trailingWhitespace :: "string \<Rightarrow> nat" where
  "trailingWhitespace s =
     (if drop (length s - 1) s \<in> set asciiWhitespace then 1
      else if drop (length s - 2) s \<in> set unicodeWhitespace2 then 2
      else if drop (length s - 3) s \<in> set unicodeWhitespace3 then 3
      else 0)"

function trimStart :: "string \<Rightarrow> string" where
  "trimStart s =
     (if leadingWhitespace s = 0 then s else trimStart (drop (leadingWhitespace s) s))"
  by pat_completeness auto
termination
proof (relation "measure length")
  show "wf (measure length)" by simp
next
  fix s :: string
  assume "leadingWhitespace s \<noteq> 0"
  then have "s \<noteq> []" and "0 < leadingWhitespace s"
    by (auto simp: leadingWhitespace_def asciiWhitespace_def unicodeWhitespace2_def
        unicodeWhitespace3_def)
  then show "(drop (leadingWhitespace s) s, s) \<in> measure length"
    by simp
qed

function trimEnd :: "string \<Rightarrow> string" where
  "trimEnd s =
     (if trailingWhitespace s = 0 then s
      else trimEnd (take (length s - trailingWhitespace s) s))"
  by pat_completeness auto
termination
proof (relation "measure length")
  show "wf (measure length)" by simp
next
  fix s :: string
  assume "trailingWhitespace s \<noteq> 0"
  then have "s \<noteq> []" and "0 < trailingWhitespace s"
    by (auto simp: trailingWhitespace_def asciiWhitespace_def unicodeWhitespace2_def
        unicodeWhitespace3_def)
  then show "(take (length s - trailingWhitespace s) s, s) \<in> measure length"
    by simp
qed

declare trimStart.simps [simp del]
declare trimEnd.simps [simp del]

definition trim :: "string \<Rightarrow> string" where
  "trim s = trimEnd (trimStart s)"

definition orEmpty :: "string option \<Rightarrow> string" where
  "orEmpty s = (case s of None \<Rightarrow> [] | Some t \<Rightarrow> t)"

datatype 'a outcome = Resolved 'a | Rejected js_error

text \<open>\<open>err?.message || err\<close> in a template string.\<close>

definition messageOrError :: "js_error \<Rightarrow> string" where
  "messageOrError err =
     (case messageProp err of
        None \<Rightarrow> errorString err
      | Some m \<Rightarrow> if m = [] then errorString err else m)"

text \<open>
  The function up to its \<open>await\<close> makes the provider call (\<open>loadUserInfo_begin\<close>, which says
  whether the call was made); the rest runs on the outcome (\<open>loadUserInfo_settle\<close>).
\<close>

definition loadUserInfo_settle :: "config \<Rightarrow> nat \<Rightarrow> ref \<Rightarrow> profile outcome \<Rightarrow> world \<Rightarrow> world" where
  "loadUserInfo_settle cfg f k out w =
     (case out of
        Resolved p \<Rightarrow>
          (let keycloakInstance = Some (store w k);
               info = \<lparr>ui_id = profile_id p, ui_username = profile_username p,
                       ui_email = profile_email p, ui_firstName = profile_firstName p,
                       ui_lastName = profile_lastName p,
                       ui_name = trim (orEmpty (profile_firstName p) @ '' '' @
                                       orEmpty (profile_lastName p)),
                       ui_roles = getUserRoles cfg keycloakInstance,
                       ui_realmRoles = (case realmAccess (store w k) of None \<Rightarrow> [] | Some rs \<Rightarrow> rs),
                       ui_clientRoles = getClientRoles cfg keycloakInstance,
                       ui_hasSuperRole = hasSuperRole cfg keycloakInstance\<rparr>
           in if isMountedRef (facades w f)
              then updFacade f (\<lambda>fa. fa\<lparr>userInfo := Some info\<rparr>) w else w)
      | Rejected err \<Rightarrow>
          (let w1 = w\<lparr>console := console w @ [(''Failed to load user info:'', Some err)]\<rparr>
           in if isMountedRef (facades w1 f)
              then updFacade f
                     (\<lambda>fa. fa\<lparr>error := Some (''Failed to load user info: '' @ messageOrError err)\<rparr>) w1
              else w1))"

definition loadUserInfo_begin :: "nat \<Rightarrow> ref \<Rightarrow> world \<Rightarrow> world \<times> bool" where
  "loadUserInfo_begin f k w =
     (if \<not> kc_authenticated (store w k) \<or> \<not> isMountedRef (facades w f) then (w, False)
      else (w\<lparr>providerCalls := providerCalls w @ [PLoadUserProfile k]\<rparr>, True))"

subsection \<open>The refresh scheduler: \<open>setupTokenRefresh\<close> (lines 266-319)\<close>

text \<open>The closure \<open>updateToken\<close> up to its \<open>await keycloakInstance.updateToken(30)\<close>; the
  instance it holds is not null, \<open>setupTokenRefresh\<close> having returned otherwise.\<close>

definition updateToken_begin :: "nat \<Rightarrow> ref \<Rightarrow> world \<Rightarrow> world" where
  "updateToken_begin f k w =
     (if \<not> isMountedRef (facades w f) then w
      else w\<lparr>providerCalls := providerCalls w @ [PUpdateToken k 30]\<rparr>)"

definition setupTokenRefresh :: "nat \<Rightarrow> ref option \<Rightarrow> world \<Rightarrow> world" where
  "setupTokenRefresh f keycloakInstance w =
     (case keycloakInstance of
        None \<Rightarrow> w
      | Some k \<Rightarrow>
          if \<not> isMountedRef (facades w f) then w
          else updateToken_begin f k (clearUpdateTokenTimeout f w))"

text \<open>
  The outcome of the provider's \<open>updateToken\<close>: it resolves with \<open>refreshed\<close>, having left the
  client object with the given fields; or it rejects with a value, having left the client
  object with the given fields. Either way it may have called hooks of the client object
  while it ran: the list of the hooks called, in order. Which fields the provider leaves and
  which hooks it calls is its own business: the model takes them as given. No hook reads the
  client object, so the hooks are run after the fields are set.
\<close>

datatype update_outcome =
    UpdateResolved bool kc_instance "hook list"
  | UpdateRejected js_error kc_instance "hook list"

text \<open>The closure after the \<open>await\<close> (lines 280-315).\<close>

definition updateToken_settle :: "config \<Rightarrow> nat \<Rightarrow> ref \<Rightarrow> update_outcome \<Rightarrow> world \<Rightarrow> world" where
  "updateToken_settle cfg f k out w =
     (case out of
        UpdateResolved refreshed inst hooks \<Rightarrow>
          (let w0 = runHooks k hooks (w\<lparr>store := (store w)(k := inst)\<rparr>);
               w1 = (if refreshed \<and> isMountedRef (facades w0 f)
                     then (let newToken = kc_token (store w0 k);
                               newRefreshToken = kc_refreshToken (store w0 k);
                               wa = updFacade f
                                      (\<lambda>fa. fa\<lparr>token := newToken, refreshToken := newRefreshToken\<rparr>) w0;
                               wb = notifyStateChange (TOKEN_UPDATED newToken newRefreshToken) wa
                           in updFacade f
                                (\<lambda>fa. fst (loadRoleAttributes cfg (Some (store wb k)) fa)) wb)
                     else w0)
           in if isMountedRef (facades w1 f) then armUpdateTokenTimeout f k w1 else w1)
      | UpdateRejected err inst hooks \<Rightarrow>
          (let wh = runHooks k hooks (w\<lparr>store := (store w)(k := inst)\<rparr>);
               w1 = wh\<lparr>console := console wh @ [(''Token update failed:'', Some err)]\<rparr>
           in if isMountedRef (facades w1 f)
              then updFacade f
                     (\<lambda>fa. fa\<lparr>error := Some ''Authentication session expired. Please login again.''\<rparr>)
                     (w1\<lparr>console := console w1 @ [(''Re-login required'', None)]\<rparr>)
              else w1))"

text \<open>The refresh that the hook \<open>onTokenExpired\<close> started settles: its \<open>catch\<close> callback (lines
  357-359) prints a line when it rejected.\<close>

definition onTokenExpired_settle :: "ref \<Rightarrow> update_outcome \<Rightarrow> world \<Rightarrow> world" where
  "onTokenExpired_settle k out w =
     (case out of
        UpdateResolved refreshed inst hooks \<Rightarrow>
          runHooks k hooks (w\<lparr>store := (store w)(k := inst)\<rparr>)
      | UpdateRejected err inst hooks \<Rightarrow>
          (let wh = runHooks k hooks (w\<lparr>store := (store w)(k := inst)\<rparr>)
           in wh\<lparr>console := console wh @ [(''Token refresh failed'', None)]\<rparr>))"

text \<open>A pending timeout fires: it is pending no more, and its closure runs.\<close>

definition timerFires :: "nat \<Rightarrow> world \<Rightarrow> world" where
  "timerFires h w =
     (case filter (\<lambda>t. t_handle t = h) (timers w) of
        [] \<Rightarrow> w
      | t # ts \<Rightarrow> updateToken_begin (t_owner t) (t_instance t) (clearTimeout h w))"

subsection \<open>\<open>initKeycloak\<close> (lines 322-430)\<close>

text \<open>
  What a call has in hand when it first gives up control: the module's promise, returned as
  it is (line 325; the caller's promise then settles as that one does); the singleton
  (line 329); or the promise it awaits at line 406 before going on.
\<close>

datatype call_result =
    ReturnsPromise "ref option"
  | ReturnsSingleton ref
  | AwaitsPromise ref

text \<open>\<open>new Keycloak(KEYCLOAK_CONFIG)\<close>: a client object before \<open>init\<close>.\<close>

definition newKeycloak :: kc_instance where
  "newKeycloak = \<lparr>kc_authenticated = False, kc_token = None, kc_refreshToken = None,
                   realmAccess = None, resourceAccess = Map.empty,
                   tokenParsed_role_attributes = None\<rparr>"

text \<open>Lines 322-406, up to the first \<open>await\<close>. The body of the promise runs at once up to its
  \<open>await keycloakInstance.init(...)\<close>: it creates the client object and calls \<open>init\<close>.\<close>

definition initKeycloak_call :: "nat \<Rightarrow> world \<Rightarrow> world \<times> call_result" where
  "initKeycloak_call f w =
     (if initializationState w = Initializing then (w, ReturnsPromise (keycloakInitPromise w))
      else case (if initializationState w = Initialized then keycloakSingleton w else None) of
          Some k \<Rightarrow> (w, ReturnsSingleton k)
        | None \<Rightarrow>
            (let w1 = (if initializationState w = Failed then resetGlobalState w else w);
                 w2 = w1\<lparr>initializationState := Initializing, globalError := None\<rparr>;
                 w3 = notifyStateChange LOADING w2
             in case keycloakInitPromise w3 of
                  Some p \<Rightarrow> (w3, AwaitsPromise p)
                | None \<Rightarrow>
                    (let r = nextRef w3
                     in (w3\<lparr>store := (store w3)(r := newKeycloak),
                             nextRef := Suc r,
                             providerCalls := providerCalls w3 @ [PInit r],
                             keycloakInitPromise := Some r\<rparr>,
                         AwaitsPromise r))))"

text \<open>
  The outcome of the provider's \<open>init\<close>: it resolves with \<open>authenticated\<close>, having left the
  client object with the given fields, or it rejects.
\<close>

datatype init_outcome = InitResolved bool kc_instance | InitRejected js_error

text \<open>How the module's promise settles: with the object \<open>{ keycloakInstance, authenticated }\<close>
  of line 388, or with a thrown value.\<close>

datatype promise_outcome = PromiseResolved ref bool | PromiseRejected js_error

text \<open>
  The body of the promise after its \<open>await\<close> (lines 377-402), for the promise of client
  object \<open>r\<close>: the new world and how the promise settles. In the \<open>catch\<close> block, line 398 reads
  \<open>error.message\<close>: on \<open>null\<close> or \<open>undefined\<close> that throws, so no event is sent and the promise
  rejects with the \<open>TypeError\<close>; lines 392-393 have run by then.
\<close>

definition initPromise_settle :: "ref \<Rightarrow> init_outcome \<Rightarrow> world \<Rightarrow> world \<times> promise_outcome" where
  "initPromise_settle r out w =
     (case out of
        InitResolved auth inst \<Rightarrow>
          (notifyStateChange (INITIALIZED r auth)
             (w\<lparr>store := (store w)(r := inst), keycloakSingleton := Some r,
                initializationState := Initialized\<rparr>),
           PromiseResolved r auth)
      | InitRejected err \<Rightarrow>
          (let w1 = w\<lparr>console := console w @ [(''Keycloak initialization failed:'', Some err)],
                      initializationState := Failed,
                      globalError := (if isNullish err then None else Some err)\<rparr>
           in if isNullish err then (w1, PromiseRejected typeErrorOnNullish)
              else (notifyStateChange
                      (ERROR (case messageProp err of
                                None \<Rightarrow> ''Keycloak initialization failed''
                              | Some m \<Rightarrow>
                                  if m = [] then ''Keycloak initialization failed'' else m))
                      w1,
                    PromiseRejected err)))"

text \<open>
  Lines 406-429 for the caller that awaited the promise, once it resolved with the client
  object \<open>r\<close> and \<open>authenticated\<close>; \<open>prof\<close> is the outcome of the provider's
  \<open>loadUserProfile\<close>. \<open>loadUserInfo\<close> and \<open>loadRoleAttributes\<close> are started in this order and
  \<open>loadRoleAttributes\<close> has no \<open>await\<close> of its own, so it is done before the profile arrives.
  The turns of the caller are taken in a row. The value returned is the client object.
\<close>

definition initKeycloak_continue ::
  "config \<Rightarrow> nat \<Rightarrow> ref \<Rightarrow> bool \<Rightarrow> profile outcome \<Rightarrow> world \<Rightarrow> world \<times> ref" where
  "initKeycloak_continue cfg f r auth prof w =
     (if \<not> isMountedRef (facades w f) then (w, r)
      else
        (let w1 = updFacade f (\<lambda>fa. fa\<lparr>keycloak := Some r, authenticated := auth\<rparr>) w
         in if \<not> auth then (updFacade f (\<lambda>fa. fa\<lparr>loading := False\<rparr>) w1, r)
            else
              (let w2 = updFacade f
                          (\<lambda>fa. fa\<lparr>token := kc_token (store w1 r),
                                    refreshToken := kc_refreshToken (store w1 r)\<rparr>) w1;
                   (w3, called) = loadUserInfo_begin f r w2;
                   w4 = updFacade f (\<lambda>fa. fst (loadRoleAttributes cfg (Some (store w3 r)) fa)) w3;
                   w5 = (if called then loadUserInfo_settle cfg f r prof w4 else w4);
                   w6 = setupTokenRefresh f (Some r) w5
               in (updFacade f (\<lambda>fa. fa\<lparr>loading := False\<rparr>) w6, r))))"





definition isInit :: "provider_call \<Rightarrow> bool" where
  "isInit c = (case c of PInit r \<Rightarrow> True | PUpdateToken r n \<Rightarrow> False
               | PLogout r \<Rightarrow> False | PLoadUserProfile r \<Rightarrow> False)"

text \<open>A step that leaves the initialization alone: it changes neither the phase nor the
  module's promise, and it does not call the provider's \<open>init\<close>.\<close>

definition leavesInitialization :: "(world \<Rightarrow> world) \<Rightarrow> bool" where
  "leavesInitialization between =
     (\<forall>w. initializationState (between w) = initializationState w \<and>
          keycloakInitPromise (between w) = keycloakInitPromise w \<and>
          filter isInit (providerCalls (between w)) = filter isInit (providerCalls w))"

subsection \<open>\<open>logout\<close> (lines 448-492)\<close>

text \<open>
  Up to the \<open>await keycloak.logout(...)\<close>; the function returns at once on a null
  \<open>keycloak\<close>. The closure keeps the client object it was created with, whatever the \<open>RESET\<close>
  does to the state, and calls the provider's \<open>logout\<close> on it last.
\<close>

definition logout_begin :: "nat \<Rightarrow> world \<Rightarrow> world" where
  "logout_begin f w =
     (case keycloak (facades w f) of
        None \<Rightarrow> w
      | Some k \<Rightarrow>
          (let w1 = clearUpdateTokenTimeout f w;
               w2 = (if isMountedRef (facades w1 f)
                     then updFacade f
                            (\<lambda>fa. fa\<lparr>authenticated := False, userInfo := None, token := None,
                                      refreshToken := None, roleAttributes := Map.empty,
                                      permissions := Map.empty, loading := True\<rparr>) w1
                     else w1);
               w3 = resetGlobalState w2
           in w3\<lparr>providerCalls := providerCalls w3 @ [PLogout k]\<rparr>))"

text \<open>
  After the \<open>await\<close>: nothing more when the provider's \<open>logout\<close> resolved, the \<open>catch\<close> block
  (lines 480-491) when it threw or rejected. Line 482 reads \<open>err.message\<close>: on \<open>null\<close> or
  \<open>undefined\<close> that throws, so the block stops after its \<open>console.error\<close> and the promise of
  \<open>logout\<close> rejects with the \<open>TypeError\<close> (\<open>logout_result\<close>; \<open>None\<close> when the promise resolves).
\<close>

definition logout_settle :: "nat \<Rightarrow> unit outcome \<Rightarrow> world \<Rightarrow> world" where
  "logout_settle f out w =
     (case out of
        Resolved u \<Rightarrow> w
      | Rejected err \<Rightarrow>
          (let w1 = w\<lparr>console := console w @ [(''Logout failed:'', Some err)]\<rparr>
           in if isNullish err then w1
              else
                (let errorMessage = ''Logout failed: '' @
                       (case messageProp err of None \<Rightarrow> ''undefined'' | Some m \<Rightarrow> m);
                     w2 = (if isMountedRef (facades w1 f)
                           then updFacade f
                                  (\<lambda>fa. fa\<lparr>error := Some errorMessage, loading := False\<rparr>) w1
                           else w1)
                 in resetGlobalState w2)))"

definition logout_result :: "unit outcome \<Rightarrow> js_error option" where
  "logout_result out =
     (case out of
        Resolved u \<Rightarrow> None
      | Rejected err \<Rightarrow> if isNullish err then Some typeErrorOnNullish else None)"

text \<open>The whole call, nothing else running between the two parts.\<close>

definition logout :: "nat \<Rightarrow> unit outcome \<Rightarrow> world \<Rightarrow> world" where
  "logout f out w =
     (case keycloak (facades w f) of
        None \<Rightarrow> w
      | Some k \<Rightarrow> logout_settle f out (logout_begin f w))"

subsection \<open>Two predicates on the state\<close>

text \<open>The fields of a facade that \<open>logout\<close> clears, all cleared (used in the proofs about
  \<open>logout\<close>).\<close>

definition clearedLocally :: "facade \<Rightarrow> bool" where
  "clearedLocally fa =
     (\<not> authenticated fa \<and> token fa = None \<and> refreshToken fa = None \<and> userInfo fa = None \<and>
      permissions fa = Map.empty \<and> updateTokenTimeoutRef fa = None)"

text \<open>
  The relation between the phase and the module's promise that every step of the module
  keeps: no promise while idle, a promise while initializing.
\<close>

definition promiseInvariant :: "world \<Rightarrow> bool" where
  "promiseInvariant w =
     (case initializationState w of
        Idle \<Rightarrow> keycloakInitPromise w = None
      | Initializing \<Rightarrow> keycloakInitPromise w \<noteq> None
      | Initialized \<Rightarrow> True
      | Failed \<Rightarrow> True)"

section \<open>Example values\<close>

text \<open>Concrete configurations, client objects and facades on which the theorems below are
  instantiated.\<close>

definition ex_cfg :: config where
  "ex_cfg = \<lparr>clientId = ''dreamn'', SUPER_ROLE = ''tsadmin''\<rparr>"

definition ex_instance :: "string list \<Rightarrow> (string \<times> jsval) list \<Rightarrow> kc_instance" where
  "ex_instance roles attrs =
     \<lparr>kc_authenticated = True, kc_token = Some ''tok'', kc_refreshToken = Some ''ref'',
      realmAccess = Some roles, resourceAccess = Map.empty,
      tokenParsed_role_attributes = Some attrs\<rparr>"

definition ex_facade :: facade where
  "ex_facade = \<lparr>keycloak = Some 0, authenticated = True, loading = False, error = None,
                 userInfo = None, token = Some ''tok'', refreshToken = Some ''ref'',
                 roleAttributes = Map.empty, permissions = Map.empty,
                 updateTokenTimeoutRef = None, isMountedRef = True\<rparr>"

definition ex_error :: js_error where
  "ex_error = Thrown (Some ''network down'') ''Error: network down''"

definition ex_fresh_facade :: facade where
  "ex_fresh_facade = \<lparr>keycloak = None, authenticated = False, loading = False, error = None,
                       userInfo = None, token = None, refreshToken = None,
                       roleAttributes = Map.empty, permissions = Map.empty,
                       updateTokenTimeoutRef = None, isMountedRef = True\<rparr>"

definition ex_world :: world where
  "ex_world =
     \<lparr>keycloakSingleton = Some 0, keycloakInitPromise = Some 0,
      initializationState = Initialized, globalError = None,
      stateSubscribers = [0, 1],
      facades = (\<lambda>f. if f = 0 then ex_facade\<lparr>updateTokenTimeoutRef := Some 1\<rparr> else ex_facade),
      store = (\<lambda>r. ex_instance [''editor''] [(''reports'', JBool True)]),
      nextRef = 1,
      timers = [\<lparr>t_handle = 1, t_owner = 0, t_instance = 0, t_delay = 300000\<rparr>],
      nextTimer = 2,
      providerCalls = [PInit 0], notified = [], console = []\<rparr>"

definition ex_throwing_subscriber ::
  "nat \<Rightarrow> event \<Rightarrow> (nat \<Rightarrow> facade) \<Rightarrow> (nat \<Rightarrow> facade) \<times> js_error option" where
  "ex_throwing_subscriber s newState fs =
     (if s = 0 then (fs, Some ex_error) else handleStateChange_subscriber s newState fs)"





section \<open>Properties of the permission resolver\<close>

lemma allPermissionsTrue_fold:
  "fold (\<lambda>module merged. assignBool merged module True) ks m0 key =
     (if key \<in> set ks \<and> key \<noteq> ''__proto__'' then Some True else m0 key)"
  by (induction ks arbitrary: m0) (auto simp: assignBool_def)

lemma allPermissionsTrue_apply:
  "allPermissionsTrue ra key =
     (if key \<in> fst ` set ra \<and> key \<noteq> ''__proto__'' then Some True else None)"
  by (simp add: allPermissionsTrue_def allPermissionsTrue_fold)

lemma customRole_inner_fold:
  "fold (\<lambda>module merged'.
           if truthyClaim (getProp ra module)
           then assignBool merged' module True else assignBool merged' module False) ks m0 key =
     (if key \<in> set ks \<and> key \<noteq> ''__proto__''
      then Some (truthyClaim (getProp ra key)) else m0 key)"
  by (induction ks arbitrary: m0) (auto simp: assignBool_def)

lemma customRole_outer_fold:
  "fold (\<lambda>role merged.
           fold (\<lambda>module merged'.
                   if truthyClaim (getProp ra module)
                   then assignBool merged' module True else assignBool merged' module False)
                (map fst ra) merged) roles m0 key =
     (if roles \<noteq> [] \<and> key \<in> fst ` set ra \<and> key \<noteq> ''__proto__''
      then Some (truthyClaim (getProp ra key)) else m0 key)"
proof (induction roles arbitrary: m0)
  case Nil
  show ?case by simp
next
  case (Cons r roles)
  show ?case
    by (simp only: fold_Cons o_apply Cons.IH) (auto simp: customRole_inner_fold)
qed

lemma customRolePermissions_apply:
  "customRolePermissions roles ra key =
     (if roles \<noteq> [] \<and> key \<in> fst ` set ra \<and> key \<noteq> ''__proto__''
      then Some (truthyClaim (getProp ra key)) else None)"
  unfolding customRolePermissions_def by (simp only: customRole_outer_fold)

lemma isCustomRole_two_shoulder: "isCustomRole ''two-shoulder''"
  by (simp add: isCustomRole_def startsWith_def)

lemma hasSuperRole_Some:
  "hasSuperRole cfg (Some k) = (kc_authenticated k \<and> SUPER_ROLE cfg \<in> set (getUserRoles cfg (Some k)))"
  by (simp add: hasSuperRole_def)

lemma loadRoleAttributes_permissions:
  "kc_authenticated k \<Longrightarrow> isMountedRef fa \<Longrightarrow>
   permissions (fst (loadRoleAttributes cfg (Some k) fa)) = mergedPermissions cfg k"
  by (simp add: loadRoleAttributes_def)

text \<open>
  What the merge gives in its three branches, for a mounted facade. With the super role or
  \<open>two-shoulder\<close>, every key of \<open>role_attributes\<close> other than \<open>__proto__\<close> gets true, whatever
  its value and whatever the other roles; otherwise, with a custom role, every such key gets
  the truth of its claim value. The key \<open>__proto__\<close> never gets an entry.
\<close>

lemma super_role_permissions:
  assumes "kc_authenticated k" and "isMountedRef fa"
    and "SUPER_ROLE cfg \<in> set (getUserRoles cfg (Some k))"
  shows "permissions (fst (loadRoleAttributes cfg (Some k) fa)) =
           (\<lambda>key. if key \<in> fst ` set (roleAttributesFromToken k) \<and> key \<noteq> ''__proto__''
                  then Some True else None)"
proof -
  have "hasSuperRole cfg (Some k)"
    using assms by (simp add: hasSuperRole_Some)
  then have "mergedPermissions cfg k = allPermissionsTrue (roleAttributesFromToken k)"
    by (simp add: mergedPermissions_def)
  then show ?thesis
    using assms by (simp add: loadRoleAttributes_permissions allPermissionsTrue_apply fun_eq_iff)
qed

lemma privileged_role_permissions:
  assumes "kc_authenticated k" and "isMountedRef fa"
    and "''two-shoulder'' \<in> set (getUserRoles cfg (Some k))"
    and "SUPER_ROLE cfg \<notin> set (getUserRoles cfg (Some k))"
  shows "permissions (fst (loadRoleAttributes cfg (Some k) fa)) =
           (\<lambda>key. if key \<in> fst ` set (roleAttributesFromToken k) \<and> key \<noteq> ''__proto__''
                  then Some True else None)"
proof -
  have "\<not> hasSuperRole cfg (Some k)"
    using assms by (simp add: hasSuperRole_Some)
  then have "mergedPermissions cfg k = allPermissionsTrue (roleAttributesFromToken k)"
    using assms(3) by (simp add: mergedPermissions_def)
  then show ?thesis
    using assms by (simp add: loadRoleAttributes_permissions allPermissionsTrue_apply fun_eq_iff)
qed

lemma custom_branch:
  assumes "kc_authenticated k" and "isMountedRef fa"
    and "SUPER_ROLE cfg \<notin> set (getUserRoles cfg (Some k))"
    and "''two-shoulder'' \<notin> set (getUserRoles cfg (Some k))"
  shows "permissions (fst (loadRoleAttributes cfg (Some k) fa)) =
           customRolePermissions (filter isCustomRole (getUserRoles cfg (Some k)))
             (roleAttributesFromToken k)"
proof -
  have "\<not> hasSuperRole cfg (Some k)"
    using assms by (simp add: hasSuperRole_Some)
  then have "mergedPermissions cfg k =
      customRolePermissions (filter isCustomRole (getUserRoles cfg (Some k)))
        (roleAttributesFromToken k)"
    using assms(4) by (simp add: mergedPermissions_def)
  then show ?thesis
    using assms by (simp add: loadRoleAttributes_permissions)
qed

lemma custom_role_permission:
  assumes "kc_authenticated k" and "isMountedRef fa"
    and "SUPER_ROLE cfg \<notin> set (getUserRoles cfg (Some k))"
    and "''two-shoulder'' \<notin> set (getUserRoles cfg (Some k))"
    and "role \<in> set (getUserRoles cfg (Some k))" and "isCustomRole role"
    and "map_of (roleAttributesFromToken k) moduleName = Some v"
    and "moduleName \<noteq> ''__proto__''"
  shows "permissions (fst (loadRoleAttributes cfg (Some k) fa)) moduleName =
           Some (v = JBool True \<or> v = JStr ''true'' \<or> v = JStr ''1'' \<or> v = JNum 1)"
proof -
  have ne: "filter isCustomRole (getUserRoles cfg (Some k)) \<noteq> []"
    using assms(5,6) by (auto simp: filter_empty_conv)
  have key: "moduleName \<in> fst ` set (roleAttributesFromToken k)"
    using assms(7) by (metis map_of_SomeD fst_conv image_eqI)
  have val: "getProp (roleAttributesFromToken k) moduleName = v"
    using assms(7) by (simp add: getProp_def)
  have "permissions (fst (loadRoleAttributes cfg (Some k) fa)) moduleName = Some (truthyClaim v)"
    using ne key val assms(8)
    by (simp add: custom_branch [OF assms(1-4)] customRolePermissions_apply)
  then show ?thesis
    by (simp add: truthyClaim_def)
qed

lemma truthyClaim_values:
  "truthyClaim (JBool True)" "truthyClaim (JStr ''true'')" "truthyClaim (JStr ''1'')"
  "truthyClaim (JNum 1)" "\<not> truthyClaim (JBool False)" "\<not> truthyClaim (JStr ''false'')"
  "\<not> truthyClaim (JNum 0)" "\<not> truthyClaim JUndefined"
  by (simp_all add: truthyClaim_def)

text \<open>
  Claim C4. The claim says that for a super-role holder every module key of
  \<open>role_attributes\<close> gets the permission true, as the comment of line 178 does. The code sets
  every key but \<open>__proto__\<close>: for a super-role holder whose token carries
  \<open>role_attributes = {"__proto__": false, "admin": false}\<close>, the key \<open>admin\<close> gets true and the
  key \<open>__proto__\<close> gets no entry.
\<close>

theorem C4_super_role_misses_proto_key:
  "hasSuperRole ex_cfg
     (Some (ex_instance [''tsadmin''] [(''__proto__'', JBool False), (''admin'', JBool False)]))
   \<and> ''__proto__'' \<in> fst ` set (roleAttributesFromToken
        (ex_instance [''tsadmin''] [(''__proto__'', JBool False), (''admin'', JBool False)]))
   \<and> permissions (fst (loadRoleAttributes ex_cfg
        (Some (ex_instance [''tsadmin''] [(''__proto__'', JBool False), (''admin'', JBool False)]))
        ex_facade)) ''__proto__'' = None
   \<and> permissions (fst (loadRoleAttributes ex_cfg
        (Some (ex_instance [''tsadmin''] [(''__proto__'', JBool False), (''admin'', JBool False)]))
        ex_facade)) ''admin'' = Some True"
proof -
  let ?k = "ex_instance [''tsadmin''] [(''__proto__'', JBool False), (''admin'', JBool False)]"
  have a: "kc_authenticated ?k" and m: "isMountedRef ex_facade"
    and r: "SUPER_ROLE ex_cfg \<in> set (getUserRoles ex_cfg (Some ?k))"
    and ra: "roleAttributesFromToken ?k = [(''__proto__'', JBool False), (''admin'', JBool False)]"
    by (simp_all add: ex_instance_def ex_facade_def ex_cfg_def getUserRoles_def
        getClientRoles_def roleAttributesFromToken_def)
  show ?thesis
    using a r by (simp add: super_role_permissions [OF a m r] ra hasSuperRole_Some)
qed

text \<open>The call of the example passes the guard of line 154 (authenticated, mounted), so the
  map read above is the one the merge built.\<close>

theorem C4_super_role_misses_proto_key_witness:
  "kc_authenticated
     (ex_instance [''tsadmin''] [(''__proto__'', JBool False), (''admin'', JBool False)])
   \<and> isMountedRef ex_facade
   \<and> permissions (fst (loadRoleAttributes ex_cfg
        (Some (ex_instance [''tsadmin''] [(''__proto__'', JBool False), (''admin'', JBool False)]))
        ex_facade)) ''__proto__'' \<noteq> Some True
   \<and> permissions (fst (loadRoleAttributes ex_cfg
        (Some (ex_instance [''tsadmin''] [(''__proto__'', JBool False), (''admin'', JBool False)]))
        ex_facade)) ''admin'' = Some True"
  using C4_super_role_misses_proto_key by (simp add: ex_instance_def ex_facade_def)

text \<open>
  Claim C5. The claim says that for a holder of \<open>two-shoulder\<close> without the super role every
  module key of \<open>role_attributes\<close> gets the permission true, as the comment of line 184 does,
  and that \<open>isCustomRole\<close> classifies \<open>two-shoulder\<close> as custom although the name is in its list
  of default roles. The classification is as claimed. The merge sets every key but
  \<open>__proto__\<close>: with \<open>role_attributes = {"__proto__": false, "admin": false}\<close> the key \<open>admin\<close>
  gets true and the key \<open>__proto__\<close> gets no entry.
\<close>

theorem C5_privileged_role_misses_proto_key:
  "''two-shoulder'' \<in> set (getUserRoles ex_cfg
     (Some (ex_instance [''two-shoulder''] [(''__proto__'', JBool False), (''admin'', JBool False)])))
   \<and> \<not> hasSuperRole ex_cfg
     (Some (ex_instance [''two-shoulder''] [(''__proto__'', JBool False), (''admin'', JBool False)]))
   \<and> permissions (fst (loadRoleAttributes ex_cfg
        (Some (ex_instance [''two-shoulder''] [(''__proto__'', JBool False), (''admin'', JBool False)]))
        ex_facade)) ''__proto__'' = None
   \<and> permissions (fst (loadRoleAttributes ex_cfg
        (Some (ex_instance [''two-shoulder''] [(''__proto__'', JBool False), (''admin'', JBool False)]))
        ex_facade)) ''admin'' = Some True
   \<and> isCustomRole ''two-shoulder'' \<and> ''two-shoulder'' \<in> set defaultRoles"
proof -
  let ?k = "ex_instance [''two-shoulder''] [(''__proto__'', JBool False), (''admin'', JBool False)]"
  have a: "kc_authenticated ?k" and m: "isMountedRef ex_facade"
    and r: "''two-shoulder'' \<in> set (getUserRoles ex_cfg (Some ?k))"
    and n: "SUPER_ROLE ex_cfg \<notin> set (getUserRoles ex_cfg (Some ?k))"
    and ra: "roleAttributesFromToken ?k = [(''__proto__'', JBool False), (''admin'', JBool False)]"
    by (simp_all add: ex_instance_def ex_facade_def ex_cfg_def getUserRoles_def
        getClientRoles_def roleAttributesFromToken_def)
  have d: "''two-shoulder'' \<in> set defaultRoles"
    by (simp add: defaultRoles_def)
  show ?thesis
    using r n d
    by (simp add: privileged_role_permissions [OF a m r n] ra hasSuperRole_Some
        isCustomRole_two_shoulder)
qed

theorem C5_privileged_role_misses_proto_key_witness:
  "kc_authenticated
     (ex_instance [''two-shoulder''] [(''__proto__'', JBool False), (''admin'', JBool False)])
   \<and> isMountedRef ex_facade
   \<and> permissions (fst (loadRoleAttributes ex_cfg
        (Some (ex_instance [''two-shoulder''] [(''__proto__'', JBool False), (''admin'', JBool False)]))
        ex_facade)) ''__proto__'' \<noteq> Some True
   \<and> permissions (fst (loadRoleAttributes ex_cfg
        (Some (ex_instance [''two-shoulder''] [(''__proto__'', JBool False), (''admin'', JBool False)]))
        ex_facade)) ''admin'' = Some True"
  using C5_privileged_role_misses_proto_key by (simp add: ex_instance_def ex_facade_def)

text \<open>
  Claim C6. The claim says that for a holder of a custom role, without the super role and
  \<open>two-shoulder\<close>, every module key of \<open>role_attributes\<close> gets the permission true exactly when
  its claim value is \<open>true\<close>, \<open>"true"\<close>, \<open>"1"\<close> or \<open>1\<close>, and an explicit false otherwise. The code
  does so for every key but \<open>__proto__\<close> (lemma \<open>custom_role_permission\<close>): with
  \<open>role_attributes = {"__proto__": true, "reports": "1", "admin": "false"}\<close> the key \<open>reports\<close>
  gets true, \<open>admin\<close> gets false, and \<open>__proto__\<close>, whose value is \<open>true\<close>, gets no entry, so
  that \<open>hasModulePermission\<close> denies it.
\<close>

theorem C6_custom_role_misses_proto_key:
  "map_of (roleAttributesFromToken (ex_instance [''editor'']
       [(''__proto__'', JBool True), (''reports'', JStr ''1''), (''admin'', JStr ''false'')]))
     ''__proto__'' = Some (JBool True)
   \<and> permissions (fst (loadRoleAttributes ex_cfg
        (Some (ex_instance [''editor'']
           [(''__proto__'', JBool True), (''reports'', JStr ''1''), (''admin'', JStr ''false'')]))
        ex_facade)) ''__proto__'' = None
   \<and> permissions (fst (loadRoleAttributes ex_cfg
        (Some (ex_instance [''editor'']
           [(''__proto__'', JBool True), (''reports'', JStr ''1''), (''admin'', JStr ''false'')]))
        ex_facade)) ''reports'' = Some True
   \<and> permissions (fst (loadRoleAttributes ex_cfg
        (Some (ex_instance [''editor'']
           [(''__proto__'', JBool True), (''reports'', JStr ''1''), (''admin'', JStr ''false'')]))
        ex_facade)) ''admin'' = Some False
   \<and> \<not> hasModulePermission ex_cfg
        (\<lambda>r. ex_instance [''editor'']
           [(''__proto__'', JBool True), (''reports'', JStr ''1''), (''admin'', JStr ''false'')])
        (fst (loadRoleAttributes ex_cfg
           (Some (ex_instance [''editor'']
              [(''__proto__'', JBool True), (''reports'', JStr ''1''), (''admin'', JStr ''false'')]))
           ex_facade)) ''__proto__''"
proof -
  let ?ra = "[(''__proto__'', JBool True), (''reports'', JStr ''1''), (''admin'', JStr ''false'')]"
  let ?k = "ex_instance [''editor''] ?ra"
  let ?fa = "fst (loadRoleAttributes ex_cfg (Some ?k) ex_facade)"
  have a: "kc_authenticated ?k" and m: "isMountedRef ex_facade"
    and n: "SUPER_ROLE ex_cfg \<notin> set (getUserRoles ex_cfg (Some ?k))"
    and t: "''two-shoulder'' \<notin> set (getUserRoles ex_cfg (Some ?k))"
    and c: "filter isCustomRole (getUserRoles ex_cfg (Some ?k)) = [''editor'']"
    and ra: "roleAttributesFromToken ?k = ?ra"
    by (simp_all add: ex_instance_def ex_facade_def ex_cfg_def getUserRoles_def
        getClientRoles_def roleAttributesFromToken_def isCustomRole_def startsWith_def
        defaultRoles_def)
  have p: "permissions ?fa = customRolePermissions [''editor''] ?ra"
    using custom_branch [OF a m n t] by (simp add: c ra)
  have e: "permissions ?fa ''__proto__'' = None" "permissions ?fa ''reports'' = Some True"
    "permissions ?fa ''admin'' = Some False"
    by (simp_all add: p customRolePermissions_apply getProp_def truthyClaim_def)
  have s: "\<not> hasSuperRole ex_cfg (deref (\<lambda>r. ?k) (keycloak ?fa))"
    using n by (cases "keycloak ?fa") (simp_all add: deref_def hasSuperRole_def)
  have "\<not> hasModulePermission ex_cfg (\<lambda>r. ?k) ?fa ''__proto__''"
    using s e(1) by (simp add: hasModulePermission_def)
  then show ?thesis
    using e by (simp add: ra)
qed

theorem C6_custom_role_misses_proto_key_witness:
  "kc_authenticated
     (ex_instance [''editor'']
        [(''__proto__'', JBool True), (''reports'', JStr ''1''), (''admin'', JStr ''false'')])
   \<and> isMountedRef ex_facade
   \<and> truthyClaim (JBool True)
   \<and> permissions (fst (loadRoleAttributes ex_cfg
        (Some (ex_instance [''editor'']
           [(''__proto__'', JBool True), (''reports'', JStr ''1''), (''admin'', JStr ''false'')]))
        ex_facade)) ''__proto__'' \<noteq> Some True
   \<and> permissions (fst (loadRoleAttributes ex_cfg
        (Some (ex_instance [''editor'']
           [(''__proto__'', JBool True), (''reports'', JStr ''1''), (''admin'', JStr ''false'')]))
        ex_facade)) ''reports'' = Some True"
  using C6_custom_role_misses_proto_key
  by (simp add: ex_instance_def ex_facade_def truthyClaim_def)

lemma truthy_lookup:
  "(if key \<in> fst ` set ra \<and> key \<noteq> ''__proto__''
    then Some (truthyClaim (getProp ra key)) else None) =
   (if key = ''__proto__'' then None else map_option truthyClaim (map_of ra key))"
proof (cases "map_of ra key")
  case None
  then show ?thesis by (simp add: map_of_eq_None_iff)
next
  case (Some v)
  then have "key \<in> fst ` set ra"
    by (metis map_of_SomeD fst_conv image_eqI)
  with Some show ?thesis by (simp add: getProp_def)
qed

text \<open>
  Claim C10. For authenticated callers with neither the super role nor \<open>two-shoulder\<close>, the
  permission map does not depend on which custom roles are held or on how many, as long as
  there is one: two callers with the same \<open>role_attributes\<close> get the same map, which is a
  function of \<open>role_attributes\<close> alone (the truth of the claim value on each key that gets an
  entry). With no custom role the map is empty.
\<close>

theorem C10_custom_roles_invariance:
  assumes "kc_authenticated k1" and "isMountedRef fa1"
    and "SUPER_ROLE cfg \<notin> set (getUserRoles cfg (Some k1))"
    and "''two-shoulder'' \<notin> set (getUserRoles cfg (Some k1))"
    and "kc_authenticated k2" and "isMountedRef fa2"
    and "SUPER_ROLE cfg \<notin> set (getUserRoles cfg (Some k2))"
    and "''two-shoulder'' \<notin> set (getUserRoles cfg (Some k2))"
    and "roleAttributesFromToken k1 = roleAttributesFromToken k2"
  shows "(filter isCustomRole (getUserRoles cfg (Some k1)) \<noteq> [] \<and>
          filter isCustomRole (getUserRoles cfg (Some k2)) \<noteq> [] \<longrightarrow>
            permissions (fst (loadRoleAttributes cfg (Some k1) fa1)) =
            permissions (fst (loadRoleAttributes cfg (Some k2) fa2)))
       \<and> (filter isCustomRole (getUserRoles cfg (Some k1)) \<noteq> [] \<longrightarrow>
            permissions (fst (loadRoleAttributes cfg (Some k1) fa1)) =
            (\<lambda>key. if key = ''__proto__'' then None
                   else map_option truthyClaim (map_of (roleAttributesFromToken k1) key)))
       \<and> (filter isCustomRole (getUserRoles cfg (Some k1)) = [] \<longrightarrow>
            permissions (fst (loadRoleAttributes cfg (Some k1) fa1)) = Map.empty)"
proof -
  have p1: "permissions (fst (loadRoleAttributes cfg (Some k1) fa1)) =
      customRolePermissions (filter isCustomRole (getUserRoles cfg (Some k1)))
        (roleAttributesFromToken k1)"
    by (rule custom_branch [OF assms(1-4)])
  have p2: "permissions (fst (loadRoleAttributes cfg (Some k2) fa2)) =
      customRolePermissions (filter isCustomRole (getUserRoles cfg (Some k2)))
        (roleAttributesFromToken k1)"
    using custom_branch [OF assms(5-8)] assms(9) by simp
  have some: "roles \<noteq> [] \<Longrightarrow> customRolePermissions roles ra =
      (\<lambda>key. if key = ''__proto__'' then None else map_option truthyClaim (map_of ra key))"
    for roles ra
  proof
    fix key
    assume "roles \<noteq> []"
    then show "customRolePermissions roles ra key =
        (if key = ''__proto__'' then None else map_option truthyClaim (map_of ra key))"
      using truthy_lookup [of key ra] by (simp add: customRolePermissions_apply)
  qed
  have none: "customRolePermissions [] ra = Map.empty" for ra
    by (simp add: fun_eq_iff customRolePermissions_apply)
  show ?thesis
    by (simp add: p1 p2 some none)
qed

theorem C10_custom_roles_invariance_witness:
  "permissions (fst (loadRoleAttributes ex_cfg
      (Some (ex_instance [''editor''] [(''reports'', JNum 1), (''admin'', JNum 0)])) ex_facade)) =
   permissions (fst (loadRoleAttributes ex_cfg
      (Some (ex_instance [''viewer'', ''offline_access'', ''auditor'']
               [(''reports'', JNum 1), (''admin'', JNum 0)])) ex_facade))
   \<and> permissions (fst (loadRoleAttributes ex_cfg
      (Some (ex_instance [''offline_access''] [(''reports'', JNum 1), (''admin'', JNum 0)]))
      ex_facade)) = Map.empty"
  using
    C10_custom_roles_invariance
      [of "ex_instance [''editor''] [(''reports'', JNum 1), (''admin'', JNum 0)]" ex_facade ex_cfg
          "ex_instance [''viewer'', ''offline_access'', ''auditor'']
             [(''reports'', JNum 1), (''admin'', JNum 0)]" ex_facade]
    C10_custom_roles_invariance
      [of "ex_instance [''offline_access''] [(''reports'', JNum 1), (''admin'', JNum 0)]"
          ex_facade ex_cfg
          "ex_instance [''offline_access''] [(''reports'', JNum 1), (''admin'', JNum 0)]"
          ex_facade]
  by (simp add: ex_instance_def ex_facade_def ex_cfg_def getUserRoles_def getClientRoles_def
      roleAttributesFromToken_def isCustomRole_def startsWith_def defaultRoles_def)

text \<open>
  Claim C9. \<open>hasModulePermission\<close> is false for an unauthenticated facade or an empty module
  name; otherwise it is true when \<open>hasSuperRole()\<close> holds, and otherwise true exactly when the
  facade's permission map has the entry \<open>true\<close> for the name.
\<close>

theorem C9_hasModulePermission:
  "(\<not> authenticated fa \<or> moduleName = [] \<longrightarrow> \<not> hasModulePermission cfg h fa moduleName)
   \<and> (authenticated fa \<and> moduleName \<noteq> [] \<and> hasSuperRole cfg (deref h (keycloak fa)) \<longrightarrow>
        hasModulePermission cfg h fa moduleName)
   \<and> (authenticated fa \<and> moduleName \<noteq> [] \<and> \<not> hasSuperRole cfg (deref h (keycloak fa)) \<longrightarrow>
        hasModulePermission cfg h fa moduleName = (permissions fa moduleName = Some True))"
  by (simp add: hasModulePermission_def)

theorem C9_hasModulePermission_witness:
  "\<not> hasModulePermission ex_cfg (\<lambda>r. ex_instance [''tsadmin''] []) ex_facade []
   \<and> \<not> hasModulePermission ex_cfg (\<lambda>r. ex_instance [''tsadmin''] [])
         (ex_facade\<lparr>authenticated := False\<rparr>) ''admin''
   \<and> hasModulePermission ex_cfg (\<lambda>r. ex_instance [''tsadmin''] []) ex_facade ''admin''
   \<and> hasModulePermission ex_cfg (\<lambda>r. ex_instance [''editor''] [])
         (ex_facade\<lparr>permissions := [''reports'' \<mapsto> True, ''admin'' \<mapsto> False]\<rparr>) ''reports''
   \<and> \<not> hasModulePermission ex_cfg (\<lambda>r. ex_instance [''editor''] [])
         (ex_facade\<lparr>permissions := [''reports'' \<mapsto> True, ''admin'' \<mapsto> False]\<rparr>) ''admin''
   \<and> \<not> hasModulePermission ex_cfg (\<lambda>r. ex_instance [''editor''] [])
         (ex_facade\<lparr>permissions := [''reports'' \<mapsto> True, ''admin'' \<mapsto> False]\<rparr>) ''billing''"
  using
    C9_hasModulePermission [of ex_facade "[]" ex_cfg "\<lambda>r. ex_instance [''tsadmin''] []"]
    C9_hasModulePermission [of "ex_facade\<lparr>authenticated := False\<rparr>" "''admin''" ex_cfg
      "\<lambda>r. ex_instance [''tsadmin''] []"]
    C9_hasModulePermission [of ex_facade "''admin''" ex_cfg "\<lambda>r. ex_instance [''tsadmin''] []"]
    C9_hasModulePermission
      [of "ex_facade\<lparr>permissions := [''reports'' \<mapsto> True, ''admin'' \<mapsto> False]\<rparr>" "''reports''"
          ex_cfg "\<lambda>r. ex_instance [''editor''] []"]
    C9_hasModulePermission
      [of "ex_facade\<lparr>permissions := [''reports'' \<mapsto> True, ''admin'' \<mapsto> False]\<rparr>" "''admin''"
          ex_cfg "\<lambda>r. ex_instance [''editor''] []"]
    C9_hasModulePermission
      [of "ex_facade\<lparr>permissions := [''reports'' \<mapsto> True, ''admin'' \<mapsto> False]\<rparr>" "''billing''"
          ex_cfg "\<lambda>r. ex_instance [''editor''] []"]
  by (simp add: ex_instance_def ex_facade_def ex_cfg_def getUserRoles_def getClientRoles_def
      hasSuperRole_def deref_def)

section \<open>Properties of the broadcast channel and the local reducer\<close>

lemma forEachSubscriber_fold:
  "forEachSubscriber cb subs newState (st, logged) =
     (fold (\<lambda>subscriber st'. fst (cb subscriber newState st')) subs st,
      logged @ map (\<lambda>err. (''Error notifying state subscriber:'', Some err))
                 (thrownErrors cb subs newState st))"
proof (induction subs arbitrary: st logged)
  case Nil
  show ?case by simp
next
  case (Cons s subs)
  obtain st' r where step: "cb s newState st = (st', r)"
    by (cases "cb s newState st")
  show ?case
    by (cases r) (simp_all add: step Cons.IH)
qed

text \<open>
  Claim C7. \<open>notifyStateChange\<close> runs the callback of every subscriber on the same event, in
  order, whether or not an earlier callback threw; each thrown value is caught and printed,
  the call returns, and the subscriber set is as before.
\<close>

theorem C7_notify_fault_isolation:
  "stateSubscribers (notifyStateChangeWith cb newState w) = stateSubscribers w
   \<and> facades (notifyStateChangeWith cb newState w) =
       fold (\<lambda>subscriber fs. fst (cb subscriber newState fs)) (stateSubscribers w) (facades w)
   \<and> console (notifyStateChangeWith cb newState w) =
       console w @ map (\<lambda>err. (''Error notifying state subscriber:'', Some err))
                     (thrownErrors cb (stateSubscribers w) newState (facades w))
   \<and> notified (notifyStateChangeWith cb newState w) = notified w @ [newState]"
  by (simp add: notifyStateChangeWith_def forEachSubscriber_fold)

theorem C7_notify_fault_isolation_witness:
  "stateSubscribers (notifyStateChangeWith ex_throwing_subscriber
       (TOKEN_UPDATED (Some ''t2'') (Some ''r2'')) ex_world) = [0, 1]
   \<and> token (facades (notifyStateChangeWith ex_throwing_subscriber
       (TOKEN_UPDATED (Some ''t2'') (Some ''r2'')) ex_world) 1) = Some ''t2''
   \<and> refreshToken (facades (notifyStateChangeWith ex_throwing_subscriber
       (TOKEN_UPDATED (Some ''t2'') (Some ''r2'')) ex_world) 1) = Some ''r2''
   \<and> console (notifyStateChangeWith ex_throwing_subscriber
       (TOKEN_UPDATED (Some ''t2'') (Some ''r2'')) ex_world) =
       [(''Error notifying state subscriber:'', Some ex_error)]"
  using C7_notify_fault_isolation
    [of ex_throwing_subscriber "TOKEN_UPDATED (Some ''t2'') (Some ''r2'')" ex_world]
  by (simp add: ex_world_def ex_throwing_subscriber_def handleStateChange_subscriber_def
      handleStateChange_def ex_facade_def)

lemma handleStateChange_known_kinds:
  assumes "isMountedRef fa"
  shows "handleStateChange fa RESET =
           fa\<lparr>keycloak := None, authenticated := False, loading := False, error := None,
              userInfo := None, token := None, refreshToken := None,
              roleAttributes := Map.empty, permissions := Map.empty\<rparr>"
    and "handleStateChange fa (INITIALIZED k a) =
           fa\<lparr>keycloak := Some k, authenticated := a, loading := False, error := None\<rparr>"
    and "handleStateChange fa (ERROR msg) = fa\<lparr>error := Some msg, loading := False\<rparr>"
    and "handleStateChange fa (TOKEN_UPDATED t r) = fa\<lparr>token := t, refreshToken := r\<rparr>"
    and "handleStateChange fa (UNKNOWN ty) = fa"
  using assms by (simp_all add: handleStateChange_def)

text \<open>
  Claim C2. The local reducer handles \<open>RESET\<close>, \<open>INITIALIZED\<close>, \<open>ERROR\<close> and \<open>TOKEN_UPDATED\<close> and
  ignores unknown kinds, but it has no case for \<open>LOADING\<close>: the event leaves every facade as
  it was, so a facade whose loading flag is false keeps it false.
\<close>

theorem C2_loading_event_is_ignored:
  "handleStateChange fa LOADING = fa
   \<and> \<not> loading (handleStateChange ex_fresh_facade LOADING)"
  by (simp add: handleStateChange_def ex_fresh_facade_def)

section \<open>Properties of \<open>logout\<close>\<close>

text \<open>What \<open>notifyStateChange\<close>, \<open>updFacade\<close> and \<open>resetGlobalState\<close> leave unchanged.\<close>

lemma notifyStateChangeWith_globals:
  "keycloakSingleton (notifyStateChangeWith cb e w) = keycloakSingleton w"
  "keycloakInitPromise (notifyStateChangeWith cb e w) = keycloakInitPromise w"
  "initializationState (notifyStateChangeWith cb e w) = initializationState w"
  "globalError (notifyStateChangeWith cb e w) = globalError w"
  "stateSubscribers (notifyStateChangeWith cb e w) = stateSubscribers w"
  "store (notifyStateChangeWith cb e w) = store w"
  "nextRef (notifyStateChangeWith cb e w) = nextRef w"
  "timers (notifyStateChangeWith cb e w) = timers w"
  "nextTimer (notifyStateChangeWith cb e w) = nextTimer w"
  "providerCalls (notifyStateChangeWith cb e w) = providerCalls w"
  "notified (notifyStateChangeWith cb e w) = notified w @ [e]"
  by (simp_all add: notifyStateChangeWith_def split: prod.split)

lemmas notifyStateChange_globals =
  notifyStateChangeWith_globals [where cb = handleStateChange_subscriber,
    folded notifyStateChange_def]

lemma thrownErrors_handleStateChange:
  "thrownErrors handleStateChange_subscriber subs e fs = []"
  by (induction subs arbitrary: fs) (simp_all add: handleStateChange_subscriber_def)

lemma notifyStateChange_console: "console (notifyStateChange e w) = console w"
  by (simp add: notifyStateChange_def notifyStateChangeWith_def forEachSubscriber_fold
      thrownErrors_handleStateChange)

lemma notifyStateChange_facades:
  "facades (notifyStateChange e w) =
     fold (\<lambda>f fs. fs(f := handleStateChange (fs f) e)) (stateSubscribers w) (facades w)"
  by (simp add: notifyStateChange_def notifyStateChangeWith_def forEachSubscriber_fold
      handleStateChange_subscriber_def)

lemma fold_handleStateChange_pres:
  assumes "P (fs f)" and "\<And>fa. P fa \<Longrightarrow> P (handleStateChange fa e)"
  shows "P (fold (\<lambda>g fs'. fs'(g := handleStateChange (fs' g) e)) subs fs f)"
  using assms(1)
proof (induction subs arbitrary: fs)
  case Nil
  then show ?case by simp
next
  case (Cons g subs)
  have "P ((fs(g := handleStateChange (fs g) e)) f)"
    using Cons.prems assms(2) by auto
  then show ?case
    using Cons.IH by simp
qed

lemma notifyStateChange_pres:
  assumes "P (facades w f)" and "\<And>fa. P fa \<Longrightarrow> P (handleStateChange fa e)"
  shows "P (facades (notifyStateChange e w) f)"
  unfolding notifyStateChange_facades
  by (rule fold_handleStateChange_pres [where P = P and fs = "facades w" and f = f, OF assms])

lemma fold_handleStateChange_unsubscribed:
  "f \<notin> set subs \<Longrightarrow>
   fold (\<lambda>g fs'. fs'(g := handleStateChange (fs' g) e)) subs fs f = fs f"
  by (induction subs arbitrary: fs) auto

text \<open>The \<open>LOADING\<close> broadcast changes no facade, so a call of \<open>initKeycloak\<close> in the idle
  phase leaves every loading flag as it was.\<close>

lemma notifyStateChange_LOADING_facades: "facades (notifyStateChange LOADING w) = facades w"
proof -
  have "fold (\<lambda>f fs. fs(f := handleStateChange (fs f) LOADING)) subs fs = fs" for subs fs
    by (induction subs arbitrary: fs) (simp_all add: handleStateChange_def)
  then show ?thesis
    by (simp add: notifyStateChange_facades)
qed

lemma initKeycloak_call_idle_facades:
  "initializationState w = Idle \<Longrightarrow> facades (fst (initKeycloak_call f w)) = facades w"
  by (simp add: initKeycloak_call_def Let_def notifyStateChange_LOADING_facades
      split: option.splits)

lemma updFacade_fields:
  "keycloakSingleton (updFacade f g w) = keycloakSingleton w"
  "keycloakInitPromise (updFacade f g w) = keycloakInitPromise w"
  "initializationState (updFacade f g w) = initializationState w"
  "globalError (updFacade f g w) = globalError w"
  "stateSubscribers (updFacade f g w) = stateSubscribers w"
  "store (updFacade f g w) = store w"
  "nextRef (updFacade f g w) = nextRef w"
  "timers (updFacade f g w) = timers w"
  "nextTimer (updFacade f g w) = nextTimer w"
  "providerCalls (updFacade f g w) = providerCalls w"
  "notified (updFacade f g w) = notified w"
  "console (updFacade f g w) = console w"
  "facades (updFacade f g w) = (facades w)(f := g (facades w f))"
  by (simp_all add: updFacade_def)

lemma resetGlobalState_globals:
  "keycloakSingleton (resetGlobalState w) = None"
  "keycloakInitPromise (resetGlobalState w) = None"
  "initializationState (resetGlobalState w) = Idle"
  "globalError (resetGlobalState w) = None"
  "timers (resetGlobalState w) = timers w"
  "providerCalls (resetGlobalState w) = providerCalls w"
  "store (resetGlobalState w) = store w"
  "nextRef (resetGlobalState w) = nextRef w"
  "nextTimer (resetGlobalState w) = nextTimer w"
  "stateSubscribers (resetGlobalState w) = stateSubscribers w"
  "console (resetGlobalState w) = console w"
  "notified (resetGlobalState w) = notified w @ [RESET]"
  by (simp_all add: resetGlobalState_def notifyStateChange_globals notifyStateChange_console)

lemma handleStateChange_clearedLocally:
  "clearedLocally fa \<Longrightarrow> clearedLocally (handleStateChange fa RESET)"
  by (simp add: clearedLocally_def handleStateChange_def)

lemma resetGlobalState_clearedLocally:
  "clearedLocally (facades w f) \<Longrightarrow> clearedLocally (facades (resetGlobalState w) f)"
  unfolding resetGlobalState_def
  by (rule notifyStateChange_pres) (simp_all add: handleStateChange_clearedLocally)

lemma clearUpdateTokenTimeout_facts:
  "updateTokenTimeoutRef (facades (clearUpdateTokenTimeout f w) f) = None"
  "isMountedRef (facades (clearUpdateTokenTimeout f w) f) = isMountedRef (facades w f)"
  "providerCalls (clearUpdateTokenTimeout f w) = providerCalls w"
  "updateTokenTimeoutRef (facades w f) = Some h \<Longrightarrow>
     h \<notin> t_handle ` set (timers (clearUpdateTokenTimeout f w))"
  by (auto simp: clearUpdateTokenTimeout_def updFacade_fields clearTimeout_def
      split: option.splits)

lemma logout_begin_facts:
  assumes "keycloak (facades w f) = Some k" and "isMountedRef (facades w f)"
  shows "clearedLocally (facades (logout_begin f w) f)"
    and "providerCalls (logout_begin f w) = providerCalls w @ [PLogout k]"
    and "keycloakSingleton (logout_begin f w) = None"
    and "keycloakInitPromise (logout_begin f w) = None"
    and "initializationState (logout_begin f w) = Idle"
    and "globalError (logout_begin f w) = None"
    and "updateTokenTimeoutRef (facades w f) = Some h \<Longrightarrow>
           h \<notin> t_handle ` set (timers (logout_begin f w))"
proof -
  let ?w1 = "clearUpdateTokenTimeout f w"
  let ?w2 = "updFacade f
     (\<lambda>fa. fa\<lparr>authenticated := False, userInfo := None, token := None,
               refreshToken := None, roleAttributes := Map.empty,
               permissions := Map.empty, loading := True\<rparr>) ?w1"
  have lb: "logout_begin f w =
      (resetGlobalState ?w2)\<lparr>providerCalls := providerCalls (resetGlobalState ?w2) @ [PLogout k]\<rparr>"
    using assms by (simp add: logout_begin_def clearUpdateTokenTimeout_facts Let_def)
  have "clearedLocally (facades ?w2 f)"
    by (simp add: clearedLocally_def updFacade_fields clearUpdateTokenTimeout_facts)
  then have "clearedLocally (facades (resetGlobalState ?w2) f)"
    by (rule resetGlobalState_clearedLocally)
  then show "clearedLocally (facades (logout_begin f w) f)"
    by (simp add: lb)
  show "providerCalls (logout_begin f w) = providerCalls w @ [PLogout k]"
    by (simp add: lb resetGlobalState_globals updFacade_fields clearUpdateTokenTimeout_facts)
  show "keycloakSingleton (logout_begin f w) = None"
    and "keycloakInitPromise (logout_begin f w) = None"
    and "initializationState (logout_begin f w) = Idle"
    and "globalError (logout_begin f w) = None"
    by (simp_all add: lb resetGlobalState_globals)
  show "h \<notin> t_handle ` set (timers (logout_begin f w))"
    if "updateTokenTimeoutRef (facades w f) = Some h"
    using clearUpdateTokenTimeout_facts(4) [OF that]
    by (simp add: lb resetGlobalState_globals updFacade_fields)
qed

lemma logout_settle_facts:
  assumes "clearedLocally (facades w f)"
    and "keycloakSingleton w = None" and "keycloakInitPromise w = None"
    and "initializationState w = Idle" and "globalError w = None"
  shows "clearedLocally (facades (logout_settle f out w) f)"
    and "keycloakSingleton (logout_settle f out w) = None"
    and "keycloakInitPromise (logout_settle f out w) = None"
    and "initializationState (logout_settle f out w) = Idle"
    and "globalError (logout_settle f out w) = None"
    and "timers (logout_settle f out w) = timers w"
    and "providerCalls (logout_settle f out w) = providerCalls w"
proof -
  show "clearedLocally (facades (logout_settle f out w) f)"
  proof (cases out)
    case (Resolved u)
    then show ?thesis using assms(1) by (simp add: logout_settle_def)
  next
    case (Rejected err)
    have "clearedLocally (facades (resetGlobalState w') f)"
      if "clearedLocally (facades w' f)" for w'
      using that by (rule resetGlobalState_clearedLocally)
    moreover have "clearedLocally (facades (updFacade f (\<lambda>fa. fa\<lparr>error := e, loading := False\<rparr>) w') f)"
      if "clearedLocally (facades w' f)" for w' e
      using that by (simp add: clearedLocally_def updFacade_fields)
    ultimately show ?thesis
      using assms(1) Rejected by (simp add: logout_settle_def Let_def)
  qed
  show "keycloakSingleton (logout_settle f out w) = None"
    and "keycloakInitPromise (logout_settle f out w) = None"
    and "initializationState (logout_settle f out w) = Idle"
    and "globalError (logout_settle f out w) = None"
    and "timers (logout_settle f out w) = timers w"
    and "providerCalls (logout_settle f out w) = providerCalls w"
    using assms(2-5)
    by (cases out; simp add: logout_settle_def Let_def resetGlobalState_globals updFacade_fields)+
qed


text \<open>The promise of \<open>logout\<close> rejects only when the provider rejected with \<open>null\<close> or
  \<open>undefined\<close>; the module is reset by then (\<open>logout_begin\<close>).\<close>

lemma logout_result_cases:
  "logout_result (Resolved u) = None"
  "logout_result (Rejected ThrownNull) = Some typeErrorOnNullish"
  "logout_result (Rejected ThrownUndefined) = Some typeErrorOnNullish"
  "logout_result (Rejected (Thrown m str)) = None"
  by (simp_all add: logout_result_def isNullish_def)


text \<open>
  Claim C8. A \<open>logout\<close> call on a mounted facade that holds a client object resets the shared
  state (singleton, init promise, phase, error) and the caller's local state (authenticated,
  token, refresh token, user info, permissions) and cancels the caller's refresh timer,
  whether the provider's \<open>logout\<close> resolves or throws. All of it is done in the first part of
  the call, whose last step is the provider call that is then awaited.
\<close>

theorem C8_logout_resets_state:
  assumes "keycloak (facades w f) = Some k" and "isMountedRef (facades w f)"
  shows "providerCalls (logout_begin f w) = providerCalls w @ [PLogout k]
       \<and> logout f out w = logout_settle f out (logout_begin f w)
       \<and> (\<forall>w' \<in> {logout_begin f w, logout f out w}.
            keycloakSingleton w' = None \<and> keycloakInitPromise w' = None \<and>
            initializationState w' = Idle \<and> globalError w' = None \<and>
            \<not> authenticated (facades w' f) \<and> token (facades w' f) = None \<and>
            refreshToken (facades w' f) = None \<and> userInfo (facades w' f) = None \<and>
            permissions (facades w' f) = Map.empty \<and>
            updateTokenTimeoutRef (facades w' f) = None \<and>
            (\<forall>h. updateTokenTimeoutRef (facades w f) = Some h \<longrightarrow>
                   h \<notin> t_handle ` set (timers w')))"
proof -
  note b = logout_begin_facts [OF assms]
  note s = logout_settle_facts [OF b(1) b(3) b(4) b(5) b(6), of out]
  have eq: "logout f out w = logout_settle f out (logout_begin f w)"
    using assms(1) by (simp add: logout_def)
  have "clearedLocally (facades (logout_begin f w) f)"
    and "clearedLocally (facades (logout_settle f out (logout_begin f w)) f)"
    by (rule b(1), rule s(1))
  then show ?thesis
    using b(2-7) s(2-6) by (simp add: eq clearedLocally_def)
qed

theorem C8_logout_resets_state_witness:
  "providerCalls (logout_begin 0 ex_world) = [PInit 0, PLogout 0]
   \<and> initializationState (logout 0 (Rejected ex_error) ex_world) = Idle
   \<and> keycloakSingleton (logout 0 (Rejected ex_error) ex_world) = None
   \<and> token (facades (logout 0 (Rejected ex_error) ex_world) 0) = None
   \<and> \<not> authenticated (facades (logout 0 (Rejected ex_error) ex_world) 0)
   \<and> updateTokenTimeoutRef (facades (logout 0 (Rejected ex_error) ex_world) 0) = None
   \<and> 1 \<notin> t_handle ` set (timers (logout 0 (Rejected ex_error) ex_world))"
proof -
  have h1: "keycloak (facades ex_world 0) = Some 0"
    and h2: "isMountedRef (facades ex_world 0)"
    and h3: "updateTokenTimeoutRef (facades ex_world 0) = Some 1"
    and h4: "providerCalls ex_world = [PInit 0]"
    by (simp_all add: ex_world_def ex_facade_def)
  show ?thesis
    using C8_logout_resets_state [OF h1 h2, of "Rejected ex_error"] h3 h4
    by auto
qed

section \<open>Properties of the refresh scheduler\<close>

lemma handleStateChange_refs:
  "isMountedRef (handleStateChange fa e) = isMountedRef fa"
  "updateTokenTimeoutRef (handleStateChange fa e) = updateTokenTimeoutRef fa"
  by (cases e; simp add: handleStateChange_def)+

lemma notifyStateChange_refs:
  "isMountedRef (facades (notifyStateChange e w) f) = isMountedRef (facades w f)"
  "updateTokenTimeoutRef (facades (notifyStateChange e w) f) = updateTokenTimeoutRef (facades w f)"
proof -
  have "isMountedRef (facades (notifyStateChange e w) f) = isMountedRef (facades w f) \<and>
        updateTokenTimeoutRef (facades (notifyStateChange e w) f) =
          updateTokenTimeoutRef (facades w f)"
    by (rule notifyStateChange_pres) (simp_all add: handleStateChange_refs)
  then show "isMountedRef (facades (notifyStateChange e w) f) = isMountedRef (facades w f)"
    and "updateTokenTimeoutRef (facades (notifyStateChange e w) f) =
          updateTokenTimeoutRef (facades w f)"
    by simp_all
qed

lemma onAuthLogout_facts:
  "notified (onAuthLogout w) = notified w @ [RESET]"
  "console (onAuthLogout w) = console w"
  "timers (onAuthLogout w) = timers w"
  "providerCalls (onAuthLogout w) = providerCalls w"
  "store (onAuthLogout w) = store w"
  "isMountedRef (facades (onAuthLogout w) f) = isMountedRef (facades w f)"
  "updateTokenTimeoutRef (facades (onAuthLogout w) f) = updateTokenTimeoutRef (facades w f)"
  by (simp_all add: onAuthLogout_def resetGlobalState_globals)
     (simp_all add: resetGlobalState_def notifyStateChange_refs)

text \<open>What one hook does, and what a row of hooks does: one \<open>RESET\<close> per \<open>onAuthLogout\<close>, one
  line per \<open>onAuthRefreshError\<close>, one provider call per \<open>onTokenExpired\<close>; no hook touches the
  store, the timers or a ref, and only \<open>onAuthLogout\<close> touches the facades.\<close>

lemma runHook_facts:
  "notified (runHook k h w) = notified w @ (if h = OnAuthLogout then [RESET] else [])"
  "console (runHook k h w) =
     console w @ (if h = OnAuthRefreshError then [(''Token refresh error'', None)] else [])"
  "providerCalls (runHook k h w) =
     providerCalls w @ (if h = OnTokenExpired then [PUpdateToken k 30] else [])"
  "timers (runHook k h w) = timers w"
  "store (runHook k h w) = store w"
  "isMountedRef (facades (runHook k h w) f) = isMountedRef (facades w f)"
  "updateTokenTimeoutRef (facades (runHook k h w) f) = updateTokenTimeoutRef (facades w f)"
  by (cases h;
      simp add: runHook_def onTokenExpired_def onAuthRefreshSuccess_def onAuthRefreshError_def
        onAuthLogout_facts)+

lemma runHook_facades:
  "h \<noteq> OnAuthLogout \<Longrightarrow> facades (runHook k h w) = facades w"
  by (cases h)
     (simp_all add: runHook_def onTokenExpired_def onAuthRefreshSuccess_def
        onAuthRefreshError_def)

lemma runHooks_facts:
  "notified (runHooks k hooks w) = notified w @ replicate (count_list hooks OnAuthLogout) RESET"
  "console (runHooks k hooks w) =
     console w @ replicate (count_list hooks OnAuthRefreshError) (''Token refresh error'', None)"
  "providerCalls (runHooks k hooks w) =
     providerCalls w @ replicate (count_list hooks OnTokenExpired) (PUpdateToken k 30)"
  "timers (runHooks k hooks w) = timers w"
  "store (runHooks k hooks w) = store w"
  "isMountedRef (facades (runHooks k hooks w) f) = isMountedRef (facades w f)"
  "updateTokenTimeoutRef (facades (runHooks k hooks w) f) = updateTokenTimeoutRef (facades w f)"
  unfolding runHooks_def
  by (induction hooks arbitrary: w; simp add: runHook_facts)+

lemma runHooks_facades:
  "OnAuthLogout \<notin> set hooks \<Longrightarrow> facades (runHooks k hooks w) = facades w"
  unfolding runHooks_def
  by (induction hooks arbitrary: w) (auto simp: runHook_facades)

text \<open>
  Claim C3, as the code has it. When a scheduled refresh rejects, the closure prints
  \<open>Token update failed:\<close> with the rejected value and, if its facade is still mounted,
  \<open>Re-login required\<close>, and sets the error of that facade to the re-login message. The closure
  calls \<open>notifyStateChange\<close> not at all: no \<open>ERROR\<close> event is broadcast. It arms no timer and
  makes no provider call. All else that happens is the work of the hooks the provider called
  while it ran: one \<open>RESET\<close> event per \<open>onAuthLogout\<close>, one line \<open>Token refresh error\<close> per
  \<open>onAuthRefreshError\<close>, one call of the provider's \<open>updateToken\<close> per \<open>onTokenExpired\<close>. The
  client object is as the provider left it; when the provider left it as it was and did not
  call \<open>onAuthLogout\<close>, no other facade changes and \<open>getToken\<close> of every facade returns what it
  returned before.
\<close>

theorem C3_refresh_failure_is_local:
  "notified (updateToken_settle cfg f k (UpdateRejected err inst hooks) w) =
     notified w @ replicate (count_list hooks OnAuthLogout) RESET
   \<and> console (updateToken_settle cfg f k (UpdateRejected err inst hooks) w) =
       console w @
       replicate (count_list hooks OnAuthRefreshError) (''Token refresh error'', None) @
       [(''Token update failed:'', Some err)] @
       (if isMountedRef (facades w f) then [(''Re-login required'', None)] else [])
   \<and> (isMountedRef (facades w f) \<longrightarrow>
         error (facades (updateToken_settle cfg f k (UpdateRejected err inst hooks) w) f) =
           Some ''Authentication session expired. Please login again.'')
   \<and> timers (updateToken_settle cfg f k (UpdateRejected err inst hooks) w) = timers w
   \<and> updateTokenTimeoutRef
         (facades (updateToken_settle cfg f k (UpdateRejected err inst hooks) w) f) =
       updateTokenTimeoutRef (facades w f)
   \<and> providerCalls (updateToken_settle cfg f k (UpdateRejected err inst hooks) w) =
       providerCalls w @ replicate (count_list hooks OnTokenExpired) (PUpdateToken k 30)
   \<and> store (updateToken_settle cfg f k (UpdateRejected err inst hooks) w) =
       (store w)(k := inst)
   \<and> (OnAuthLogout \<notin> set hooks \<longrightarrow>
         (\<forall>g. g \<noteq> f \<longrightarrow>
            facades (updateToken_settle cfg f k (UpdateRejected err inst hooks) w) g =
            facades w g))
   \<and> (OnAuthLogout \<notin> set hooks \<and> inst = store w k \<longrightarrow>
         (\<forall>g. getToken (store (updateToken_settle cfg f k (UpdateRejected err inst hooks) w))
                 (facades (updateToken_settle cfg f k (UpdateRejected err inst hooks) w) g) =
               getToken (store w) (facades w g)))"
proof -
  let ?w' = "updateToken_settle cfg f k (UpdateRejected err inst hooks) w"
  have main: "notified ?w' = notified w @ replicate (count_list hooks OnAuthLogout) RESET"
    "console ?w' = console w @
       replicate (count_list hooks OnAuthRefreshError) (''Token refresh error'', None) @
       [(''Token update failed:'', Some err)] @
       (if isMountedRef (facades w f) then [(''Re-login required'', None)] else [])"
    "isMountedRef (facades w f) \<Longrightarrow>
       error (facades ?w' f) = Some ''Authentication session expired. Please login again.''"
    "timers ?w' = timers w"
    "updateTokenTimeoutRef (facades ?w' f) = updateTokenTimeoutRef (facades w f)"
    "providerCalls ?w' =
       providerCalls w @ replicate (count_list hooks OnTokenExpired) (PUpdateToken k 30)"
    "store ?w' = (store w)(k := inst)"
    by (simp_all add: updateToken_settle_def Let_def updFacade_fields runHooks_facts)
  have others: "facades ?w' g = facades w g" if "OnAuthLogout \<notin> set hooks" "g \<noteq> f" for g
    using that
    by (simp add: updateToken_settle_def Let_def updFacade_fields runHooks_facades)
  have kc: "keycloak (facades ?w' g) = keycloak (facades w g)"
    if "OnAuthLogout \<notin> set hooks" for g
    using that
    by (simp add: updateToken_settle_def Let_def updFacade_fields runHooks_facades)
  have tk: "token (facades ?w' g) = token (facades w g)"
    if "OnAuthLogout \<notin> set hooks" for g
    using that
    by (simp add: updateToken_settle_def Let_def updFacade_fields runHooks_facades)
  have st: "store ?w' = store w" if "inst = store w k"
    using that main(7) by simp
  have gt: "getToken (store ?w') (facades ?w' g) = getToken (store w) (facades w g)"
    if "OnAuthLogout \<notin> set hooks" "inst = store w k" for g
    by (simp add: getToken_def st [OF that(2)] kc [OF that(1)] tk [OF that(1)])
  show ?thesis
    using main others gt by simp
qed

theorem C3_refresh_failure_is_local_witness:
  "error (facades (updateToken_settle ex_cfg 0 0
       (UpdateRejected ex_error (store ex_world 0) [OnAuthRefreshError]) ex_world) 0) =
     Some ''Authentication session expired. Please login again.''
   \<and> console (updateToken_settle ex_cfg 0 0
       (UpdateRejected ex_error (store ex_world 0) [OnAuthRefreshError]) ex_world) =
     [(''Token refresh error'', None), (''Token update failed:'', Some ex_error),
      (''Re-login required'', None)]
   \<and> notified (updateToken_settle ex_cfg 0 0
       (UpdateRejected ex_error (store ex_world 0) [OnAuthRefreshError]) ex_world) = []
   \<and> facades (updateToken_settle ex_cfg 0 0
       (UpdateRejected ex_error (store ex_world 0) [OnAuthRefreshError]) ex_world) 1 =
     facades ex_world 1
   \<and> timers (updateToken_settle ex_cfg 0 0
       (UpdateRejected ex_error (store ex_world 0) [OnAuthRefreshError]) ex_world) =
     timers ex_world
   \<and> providerCalls (updateToken_settle ex_cfg 0 0
       (UpdateRejected ex_error (store ex_world 0) [OnAuthRefreshError]) ex_world) =
     providerCalls ex_world
   \<and> getToken
       (store (updateToken_settle ex_cfg 0 0
          (UpdateRejected ex_error (store ex_world 0) [OnAuthRefreshError]) ex_world))
       (facades (updateToken_settle ex_cfg 0 0
          (UpdateRejected ex_error (store ex_world 0) [OnAuthRefreshError]) ex_world) 0) =
     Some ''tok''"
proof -
  have h: "isMountedRef (facades ex_world 0)"
    and c: "console ex_world = []"
    and n: "notified ex_world = []"
    and t: "getToken (store ex_world) (facades ex_world 0) = Some ''tok''"
    by (simp_all add: ex_world_def ex_facade_def ex_instance_def getToken_def)
  show ?thesis
    using C3_refresh_failure_is_local
      [of ex_cfg 0 0 ex_error "store ex_world 0" "[OnAuthRefreshError]" ex_world] h c n t
    by auto
qed

theorem C3_refresh_failure_counterexample:
  "stateSubscribers ex_world = [0, 1]
   \<and> notified (updateToken_settle ex_cfg 0 0
        (UpdateRejected ex_error (store ex_world 0) [OnAuthRefreshError]) ex_world) = []
   \<and> error (facades (updateToken_settle ex_cfg 0 0
        (UpdateRejected ex_error (store ex_world 0) [OnAuthRefreshError]) ex_world) 1) = None
   \<and> notified (updateToken_settle ex_cfg 0 0
        (UpdateRejected ex_error (store ex_world 0) [OnAuthLogout, OnAuthRefreshError])
        ex_world) = [RESET]
   \<and> error (facades (updateToken_settle ex_cfg 0 0
        (UpdateRejected ex_error (store ex_world 0) [OnAuthLogout, OnAuthRefreshError])
        ex_world) 1) = None
   \<and> error (facades (notifyStateChange
        (ERROR ''Authentication session expired. Please login again.'') ex_world) 1) =
       Some ''Authentication session expired. Please login again.''"
proof -
  let ?no = "UpdateRejected ex_error (store ex_world 0) [OnAuthRefreshError]"
  let ?yes = "UpdateRejected ex_error (store ex_world 0) [OnAuthLogout, OnAuthRefreshError]"
  have s: "stateSubscribers ex_world = [0, 1]" and n: "notified ex_world = []"
    and e': "error (facades ex_world (Suc 0)) = None"
    by (simp_all add: ex_world_def ex_facade_def)
  have a: "notified (updateToken_settle ex_cfg 0 0 ?no ex_world) = []"
    "error (facades (updateToken_settle ex_cfg 0 0 ?no ex_world) 1) = None"
    by (simp_all add: updateToken_settle_def Let_def updFacade_fields runHooks_facts
        runHooks_facades n e')
  have r: "error (facades (onAuthLogout w) g) = None" if "error (facades w g) = None" for w g
    unfolding onAuthLogout_def resetGlobalState_def
    by (rule notifyStateChange_pres [where P = "\<lambda>fa. error fa = None"])
       (simp_all add: that handleStateChange_def)
  have b: "notified (updateToken_settle ex_cfg 0 0 ?yes ex_world) = [RESET]"
    by (simp add: updateToken_settle_def Let_def updFacade_fields runHooks_facts n)
  have b': "error (facades (updateToken_settle ex_cfg 0 0 ?yes ex_world) 1) = None"
    by (simp add: updateToken_settle_def Let_def updFacade_fields runHooks_def runHook_def
        onAuthRefreshError_def runHook_facts r e')
  have c: "error (facades (notifyStateChange
        (ERROR ''Authentication session expired. Please login again.'') ex_world) 1) =
       Some ''Authentication session expired. Please login again.''"
    by (simp add: ex_world_def ex_facade_def notifyStateChange_facades handleStateChange_def)
  show ?thesis
    using s a b b' c by simp
qed
section \<open>Properties of \<open>initKeycloak\<close>\<close>






lemma runHook_globals:
  assumes "h \<noteq> OnAuthLogout"
  shows "initializationState (runHook k h w) = initializationState w"
    and "keycloakInitPromise (runHook k h w) = keycloakInitPromise w"
  using assms
  by (cases h;
      simp add: runHook_def onTokenExpired_def onAuthRefreshSuccess_def onAuthRefreshError_def)+

lemma runHooks_globals:
  assumes "OnAuthLogout \<notin> set hooks"
  shows "initializationState (runHooks k hooks w) = initializationState w"
    and "keycloakInitPromise (runHooks k hooks w) = keycloakInitPromise w"
  using assms unfolding runHooks_def
  by (induction hooks arbitrary: w; auto simp: runHook_globals)+

lemma isInit_PUpdateToken: "\<not> isInit (PUpdateToken k n)"
  by (simp add: isInit_def)


text \<open>So do a refresh that rejects with no call of \<open>onAuthLogout\<close>, a timer that fires, and
  the arrival of the user profile.\<close>

lemma leavesInitialization_updateToken_rejected:
  assumes "OnAuthLogout \<notin> set hooks"
  shows "leavesInitialization (updateToken_settle cfg f k (UpdateRejected err inst hooks))"
  using assms
  by (simp add: leavesInitialization_def updateToken_settle_def Let_def updFacade_fields
      runHooks_globals runHooks_facts isInit_PUpdateToken)

lemma leavesInitialization_timerFires: "leavesInitialization (timerFires h)"
  by (simp add: leavesInitialization_def timerFires_def updateToken_begin_def clearTimeout_def
      isInit_PUpdateToken split: list.splits)

lemma leavesInitialization_loadUserInfo_settle:
  "leavesInitialization (loadUserInfo_settle cfg f k out)"
  by (cases out) (simp_all add: leavesInitialization_def loadUserInfo_settle_def Let_def
      updFacade_fields)








lemma map_constant:
  "\<forall>x \<in> set xs. g x = c \<Longrightarrow> map g xs = replicate (length xs) c"
  by (induction xs) simp_all




subsection \<open>The invariant between the phase and the promise\<close>

text \<open>Every step of the module keeps \<open>promiseInvariant\<close>, which holds when the module is loaded
  (idle, no promise); so a world in the idle or initializing phase is as the theorem on
  \<open>initKeycloak\<close> assumes.\<close>

lemma promiseInvariant_cong:
  "initializationState w' = initializationState w \<Longrightarrow>
   keycloakInitPromise w' = keycloakInitPromise w \<Longrightarrow>
   promiseInvariant w' = promiseInvariant w"
  by (simp add: promiseInvariant_def split: phase.splits)

lemma promiseInvariant_resetGlobalState: "promiseInvariant (resetGlobalState w)"
  by (simp add: promiseInvariant_def resetGlobalState_globals)

lemma promiseInvariant_initKeycloak_call:
  "promiseInvariant w \<Longrightarrow> promiseInvariant (fst (initKeycloak_call f w))"
  by (auto simp: promiseInvariant_def initKeycloak_call_def Let_def notifyStateChange_globals
      resetGlobalState_globals split: phase.splits option.splits)

lemma promiseInvariant_initPromise_settle:
  "promiseInvariant (fst (initPromise_settle r out w))"
  by (cases out) (simp_all add: promiseInvariant_def initPromise_settle_def Let_def
      notifyStateChange_globals)

lemma promiseInvariant_logout:
  "promiseInvariant w \<Longrightarrow> promiseInvariant (logout f out w)"
proof -
  assume inv: "promiseInvariant w"
  have b: "promiseInvariant (logout_begin f w)"
    using inv
    by (auto simp: promiseInvariant_def logout_begin_def Let_def resetGlobalState_globals
        split: option.splits)
  have "promiseInvariant (logout_settle f out w')" if "promiseInvariant w'" for w'
  proof (cases out)
    case (Resolved u)
    then show ?thesis
      using that by (simp add: logout_settle_def)
  next
    case (Rejected err)
    show ?thesis
    proof (cases "isNullish err")
      case True
      have "promiseInvariant (logout_settle f out w') = promiseInvariant w'"
        by (rule promiseInvariant_cong) (simp_all add: Rejected True logout_settle_def Let_def)
      then show ?thesis
        using that by simp
    next
      case False
      then show ?thesis
        by (simp add: Rejected logout_settle_def Let_def promiseInvariant_resetGlobalState)
    qed
  qed
  then show ?thesis
    using inv b by (simp add: logout_def split: option.splits)
qed

lemma globals_clearUpdateTokenTimeout:
  "initializationState (clearUpdateTokenTimeout f w) = initializationState w"
  "keycloakInitPromise (clearUpdateTokenTimeout f w) = keycloakInitPromise w"
  by (simp_all add: clearUpdateTokenTimeout_def clearTimeout_def updFacade_fields
      split: option.splits)

lemma globals_updateToken_begin:
  "initializationState (updateToken_begin f k w) = initializationState w"
  "keycloakInitPromise (updateToken_begin f k w) = keycloakInitPromise w"
  by (simp_all add: updateToken_begin_def)

lemma globals_setupTokenRefresh:
  "initializationState (setupTokenRefresh f ko w) = initializationState w"
  "keycloakInitPromise (setupTokenRefresh f ko w) = keycloakInitPromise w"
  by (simp_all add: setupTokenRefresh_def globals_updateToken_begin
      globals_clearUpdateTokenTimeout split: option.splits)

lemma globals_loadUserInfo_settle:
  "initializationState (loadUserInfo_settle cfg f k out w) = initializationState w"
  "keycloakInitPromise (loadUserInfo_settle cfg f k out w) = keycloakInitPromise w"
  by (cases out; simp add: loadUserInfo_settle_def Let_def updFacade_fields)+

lemma promiseInvariant_setupTokenRefresh:
  "promiseInvariant (setupTokenRefresh f ko w) = promiseInvariant w"
  by (rule promiseInvariant_cong) (simp_all add: globals_setupTokenRefresh)

lemma promiseInvariant_timerFires:
  "promiseInvariant (timerFires h w) = promiseInvariant w"
  by (rule promiseInvariant_cong)
     (simp_all add: timerFires_def globals_updateToken_begin clearTimeout_def
        split: list.splits)

text \<open>The hooks keep the invariant (\<open>onAuthLogout\<close> resets the module, the others touch
  neither the phase nor the promise), and so does a refresh that settles.\<close>

lemma promiseInvariant_runHooks:
  "promiseInvariant w \<Longrightarrow> promiseInvariant (runHooks k hooks w)"
  unfolding runHooks_def
proof (induction hooks arbitrary: w)
  case Nil
  then show ?case by simp
next
  case (Cons h hooks)
  have "promiseInvariant (runHook k h w)"
  proof (cases "h = OnAuthLogout")
    case True
    then show ?thesis
      by (simp add: runHook_def onAuthLogout_def promiseInvariant_resetGlobalState)
  next
    case False
    have "promiseInvariant (runHook k h w) = promiseInvariant w"
      using False
      by (intro promiseInvariant_cong; cases h)
         (simp_all add: runHook_def onTokenExpired_def onAuthRefreshSuccess_def
            onAuthRefreshError_def)
    then show ?thesis
      using Cons.prems by simp
  qed
  then show ?case
    using Cons.IH by simp
qed

lemma promiseInvariant_updateToken_settle:
  assumes "promiseInvariant w"
  shows "promiseInvariant (updateToken_settle cfg f k out w)"
proof -
  have stored: "promiseInvariant (runHooks k hooks (w\<lparr>store := (store w)(k := inst)\<rparr>))"
    for hooks inst
  proof (rule promiseInvariant_runHooks)
    have "promiseInvariant (w\<lparr>store := (store w)(k := inst)\<rparr>) = promiseInvariant w"
      by (rule promiseInvariant_cong) simp_all
    then show "promiseInvariant (w\<lparr>store := (store w)(k := inst)\<rparr>)"
      using assms by simp
  qed
  show ?thesis
  proof (cases out)
    case (UpdateResolved refreshed inst hooks)
    have "promiseInvariant (updateToken_settle cfg f k out w) =
        promiseInvariant (runHooks k hooks (w\<lparr>store := (store w)(k := inst)\<rparr>))"
      by (rule promiseInvariant_cong)
         (simp_all add: UpdateResolved updateToken_settle_def Let_def updFacade_fields
            notifyStateChange_globals armUpdateTokenTimeout_def)
    then show ?thesis
      using stored by simp
  next
    case (UpdateRejected err inst hooks)
    have "promiseInvariant (updateToken_settle cfg f k out w) =
        promiseInvariant (runHooks k hooks (w\<lparr>store := (store w)(k := inst)\<rparr>))"
      by (rule promiseInvariant_cong)
         (simp_all add: UpdateRejected updateToken_settle_def Let_def updFacade_fields)
    then show ?thesis
      using stored by simp
  qed
qed

lemma promiseInvariant_initKeycloak_continue:
  "promiseInvariant (fst (initKeycloak_continue cfg f r auth prof w)) = promiseInvariant w"
  by (rule promiseInvariant_cong)
     (simp_all add: initKeycloak_continue_def Let_def loadUserInfo_begin_def updFacade_fields
        globals_setupTokenRefresh globals_loadUserInfo_settle split: prod.splits)

lemma promiseInvariant_idle_or_initializing:
  assumes "promiseInvariant w"
    and "initializationState w = Idle \<or> initializationState w = Initializing"
  shows "initializationState w = Idle \<and> keycloakInitPromise w = None \<or>
         initializationState w = Initializing \<and> keycloakInitPromise w \<noteq> None"
  using assms by (auto simp: promiseInvariant_def)

end
